theory Spec2Isabelle
  imports Main "HOL-Library.Sublist" "HOL-Library.Word"
begin

section \<open>Strings and the version text clean-up\<close>

text \<open>
  Go strings are byte sequences; they are modelled as \<open>string\<close> (a list of
  characters). The line feed is the character with code 10.
\<close>

definition LF :: char where
  "LF = CHR 0x0A"

text \<open>
  \<^verbatim>\<open>strings.Replace(s, old, new, 1)\<close>: the first occurrence of \<open>old\<close> in \<open>s\<close>,
  scanning from the left, is replaced by \<open>new\<close>; a string without an occurrence is
  returned as it is. Every call of \<^verbatim>\<open>strings.Replace\<close> in build.go has the count 1.
\<close>

fun Replace1 :: "string \<Rightarrow> string \<Rightarrow> string \<Rightarrow> string" where
  "Replace1 [] old new = (if old = [] then new else [])"
| "Replace1 (c # cs) old new =
     (if prefix old (c # cs) then new @ drop (length old) (c # cs)
      else c # Replace1 cs old new)"

text \<open>
  The last line of \<^verbatim>\<open>fetchVersionFromURL\<close> (build.go, line 268):
  \<^verbatim>\<open>strings.Replace(strings.Replace(string(versionBytes), "v", "", 1), "\n", "", 1)\<close>.
\<close>

definition cleanVersion :: "string \<Rightarrow> string" where
  "cleanVersion versionBytes = Replace1 (Replace1 versionBytes ''v'' []) [LF] []"

section \<open>Data model\<close>

text \<open>\<^verbatim>\<open>type ChannelType string\<close> with its three constants (build.go, lines 20-31).\<close>

type_synonym ChannelType = string

definition ChannelStable :: ChannelType where
  "ChannelStable = ''stable''"

definition ChannelUnstable :: ChannelType where
  "ChannelUnstable = ''unstable''"

definition ChannelNightly :: ChannelType where
  "ChannelNightly = ''nightly''"

definition minimumKubernetesVersion :: string where
  "minimumKubernetesVersion = ''1.12.0-alpha.0''"

definition minimumStableKubernetesVersion :: string where
  "minimumStableKubernetesVersion = ''1.12.0''"

definition minimumCNIVersion :: string where
  "minimumCNIVersion = ''0.7.5''"

text \<open>
  A Go \<^verbatim>\<open>error\<close> is an opaque value that the program only passes on. The model keeps
  the message and tags it with the kind of call that produced it: an HTTP fetch, the
  semantic-version parser, the template engine, a filesystem call, a subprocess.
  \<open>Panic\<close> is a run-time panic (a slice expression out of range).
\<close>

datatype error =
    NetworkError string
  | ParseError string
  | TemplateError string
  | FilesystemError string
  | ProcessError string
  | Panic string

text \<open>
  \<^verbatim>\<open>type version struct\<close> (lines 46-53). Two fields hold functions, and
  \<^verbatim>\<open>GetDownloadLinkBase\<close> takes a \<^verbatim>\<open>version\<close>; a record cannot occur in the type of
  its own field, so the four string fields form \<open>versionData\<close>, \<open>version\<close> extends
  it with the two resolvers, and \<open>GetDownloadLinkBase\<close> receives the string fields of
  its argument. A \<^verbatim>\<open>nil\<close> function is \<open>None\<close>. A resolver acts on the world: it
  takes a state \<open>'s\<close> and returns its result with the new state.
\<close>

record versionData =
  Version :: string
  Revision :: string
  DownloadLinkBase :: string
  Channel :: ChannelType

record 's version = versionData +
  GetVersion :: "('s \<Rightarrow> (error + string) \<times> 's) option"
  GetDownloadLinkBase :: "(versionData \<Rightarrow> 's \<Rightarrow> (error + string) \<times> 's) option"

text \<open>\<^verbatim>\<open>type build struct\<close> (lines 40-44).\<close>

record 's build =
  Package :: string
  Distros :: "string list"
  Versions :: "'s version list"

text \<open>\<^verbatim>\<open>type cfg struct\<close> (lines 55-62): the embedded \<^verbatim>\<open>version\<close> and five strings.\<close>

record 's cfg = "'s version" +
  DistroName :: string
  Arch :: string
  DebArch :: string
  Package :: string
  Dependencies :: string

text \<open>
  The package-level variables that the command line sets (lines 76-93 and 110-116),
  as they stand after \<^verbatim>\<open>flag.Parse\<close>.
\<close>

record flags =
  architectures :: "string list"
  distros :: "string list"
  kubeVersion :: string
  revision :: string
  releaseDownloadLinkBase :: string
  keepTmp :: bool

definition defaultFlags :: flags where
  "defaultFlags = \<lparr>
     architectures = [''amd64'', ''arm'', ''arm64'', ''ppc64le'', ''s390x''],
     distros = [''bionic'', ''xenial'', ''trusty'', ''stretch'', ''jessie'', ''sid''],
     kubeVersion = [],
     revision = ''00'',
     releaseDownloadLinkBase = ''https://dl.k8s.io'',
     keepTmp = False \<rparr>"

text \<open>\<^verbatim>\<open>strings.Join\<close> and the two dependency strings (lines 95-107).\<close>

fun strings_Join :: "string list \<Rightarrow> string \<Rightarrow> string" where
  "strings_Join [] sep = []"
| "strings_Join [x] sep = x"
| "strings_Join (x # y # xs) sep = x @ sep @ strings_Join (y # xs) sep"

definition KubeadmDependencies :: string where
  "KubeadmDependencies = strings_Join
     [''kubelet (>= '' @ minimumStableKubernetesVersion @ '')'',
      ''kubectl (>= '' @ minimumStableKubernetesVersion @ '')'',
      ''kubernetes-cni (>= '' @ minimumCNIVersion @ '')'',
      ''cri-tools (>= '' @ minimumStableKubernetesVersion @ '')'',
      ''${misc:Depends}''] '',''"

definition KubeletDependencies :: string where
  "KubeletDependencies = strings_Join
     [''kubernetes-cni (>= '' @ minimumCNIVersion @ '')''] '',''"

section \<open>The world: network, filesystem, subprocesses\<close>

text \<open>
  Modelled from the spec: the content of a template file. The template engine is the
  library \<^verbatim>\<open>text/template\<close>, which is not among the sources; the spec describes a
  template as text in which the fields of the job configuration are substituted, with
  helper functions such as the timestamp formatter. A parsed template is a list of
  nodes: literal text, a reference to a configuration field by name (\<^verbatim>\<open>{{ .Version }}\<close>),
  or a call of a helper by name (\<^verbatim>\<open>{{ date }}\<close>).
\<close>

datatype tmplNode =
    Text string
  | Field string
  | Helper string

text \<open>
  The template that \<^verbatim>\<open>run\<close> builds for a file (lines 163-167): the helper functions
  it is given, its options, the file it was parsed from, and the nodes the parser
  found in that file.
\<close>

record template =
  tmplFuncs :: "string list"
  tmplOptions :: "string list"
  tmplFile :: string
  tmplBody :: "tmplNode list"

text \<open>
  Every call that leaves the program is recorded, with its outcome, in a trace. The
  outcome of a call comes from the environment, which may answer the same call
  differently as the run goes on: each answer is a function of the trace so far.
\<close>

datatype httpResult =
    GetError string
  | ReadError string
  | Body string

datatype event =
    HttpGet string httpResult
  | TempDir "string + string"
  | RemoveAll string
  | EvalSymlinks string "string + string"
  | WalkDir string
  | Mkdir string "32 word" "string option"
  | ParseFiles string "string + tmplNode list"
  | OpenFile string "string option"
  | Execute string template string "string option"
  | CloseFile string
  | Chmod string "32 word" "string option"
  | RunCommand string string "string list" "string option"
  | MkdirAll string "32 word" "string option"

type_synonym trace = "event list"

text \<open>\<^verbatim>\<open>os.FileInfo\<close>, as far as \<^verbatim>\<open>run\<close> reads it: \<^verbatim>\<open>IsDir()\<close> and \<^verbatim>\<open>Mode()\<close>.\<close>

record FileInfo =
  IsDir :: bool
  Mode :: "32 word"

text \<open>\<^verbatim>\<open>type work struct\<close> (lines 33-38); the field \<^verbatim>\<open>t\<close> is \<open>tmpl\<close> here.\<close>

record work =
  src :: string
  dst :: string
  tmpl :: template
  info :: FileInfo

text \<open>
  The environment. \<open>httpGet\<close> answers \<^verbatim>\<open>http.Get\<close> followed by \<^verbatim>\<open>ioutil.ReadAll\<close>;
  \<open>semverParse\<close> is \<^verbatim>\<open>semver.Parse\<close>, giving the major and minor numbers;
  \<open>walkEntries\<close> lists what \<^verbatim>\<open>filepath.Walk\<close> visits, in order: the path, its
  \<^verbatim>\<open>FileInfo\<close> and the error the walk reports for it; \<open>parseFiles\<close> gives the
  nodes of a template file or a parse error; \<open>helperValue\<close> is the text a helper
  function returns (for \<^verbatim>\<open>date\<close>, the time of the call); \<open>tmplWrite\<close> answers the
  write of one more piece of output to the open file, given its path and what was
  written before; \<open>cmdRun\<close> answers \<^verbatim>\<open>cmd.Run\<close> for a working directory, a command
  and its arguments; \<open>pathJoin\<close> is \<^verbatim>\<open>filepath.Join\<close>.
  An answer \<open>Some m\<close> or \<open>Inl m\<close> is a failure with message \<open>m\<close>.
\<close>

record env =
  httpGet :: "trace \<Rightarrow> string \<Rightarrow> httpResult"
  semverParse :: "string \<Rightarrow> string + (64 word \<times> 64 word)"
  osTempDir :: "trace \<Rightarrow> string + string"
  evalSymlinks :: "trace \<Rightarrow> string \<Rightarrow> string + string"
  walkEntries :: "trace \<Rightarrow> string \<Rightarrow> (string \<times> FileInfo \<times> string option) list"
  osMkdir :: "trace \<Rightarrow> string \<Rightarrow> 32 word \<Rightarrow> string option"
  parseFiles :: "trace \<Rightarrow> string \<Rightarrow> string + tmplNode list"
  openFile :: "trace \<Rightarrow> string \<Rightarrow> string option"
  helperValue :: "trace \<Rightarrow> string \<Rightarrow> string"
  tmplWrite :: "trace \<Rightarrow> string \<Rightarrow> string \<Rightarrow> string \<Rightarrow> string option"
  osChmod :: "trace \<Rightarrow> string \<Rightarrow> 32 word \<Rightarrow> string option"
  cmdRun :: "trace \<Rightarrow> string \<Rightarrow> string \<Rightarrow> string list \<Rightarrow> string option"
  osMkdirAll :: "trace \<Rightarrow> string \<Rightarrow> 32 word \<Rightarrow> string option"
  pathJoin :: "string list \<Rightarrow> string"

section \<open>Version resolver\<close>

text \<open>\<^verbatim>\<open>fetchVersionFromURL\<close> (lines 256-269).\<close>

definition fetchVersionFromURL :: "env \<Rightarrow> string \<Rightarrow> trace \<Rightarrow> (error + string) \<times> trace" where
  "fetchVersionFromURL e url tr =
     (let r = httpGet e tr url; tr' = tr @ [HttpGet url r] in
      case r of
        GetError m \<Rightarrow> (Inl (NetworkError m), tr')
      | ReadError m \<Rightarrow> (Inl (NetworkError m), tr')
      | Body versionBytes \<Rightarrow> (Inr (cleanVersion versionBytes), tr'))"

definition getStableKubeVersion :: "env \<Rightarrow> trace \<Rightarrow> (error + string) \<times> trace" where
  "getStableKubeVersion e = fetchVersionFromURL e ''https://dl.k8s.io/release/stable.txt''"

definition getLatestKubeVersion :: "env \<Rightarrow> trace \<Rightarrow> (error + string) \<times> trace" where
  "getLatestKubeVersion e = fetchVersionFromURL e ''https://dl.k8s.io/release/latest.txt''"

definition getLatestKubeCIBuild :: "env \<Rightarrow> trace \<Rightarrow> (error + string) \<times> trace" where
  "getLatestKubeCIBuild e = fetchVersionFromURL e ''https://dl.k8s.io/ci-cross/latest.txt''"

text \<open>\<^verbatim>\<open>getKubeCIVersion\<close> (lines 279-287).\<close>

definition getKubeCIVersion :: "env \<Rightarrow> trace \<Rightarrow> (error + string) \<times> trace" where
  "getKubeCIVersion e tr =
     (case getLatestKubeCIBuild e tr of
        (Inl err, tr') \<Rightarrow> (Inl err, tr')
      | (Inr latestVersion, tr') \<Rightarrow> (Inr (Replace1 latestVersion ''+'' ''-''), tr'))"

text \<open>\<^verbatim>\<open>strconv.FormatUint(x, 10)\<close> on a \<^verbatim>\<open>uint64\<close>.\<close>

fun decimal :: "nat \<Rightarrow> string" where
  "decimal n =
     (if n < 10 then [char_of (48 + n)]
      else decimal (n div 10) @ [char_of (48 + n mod 10)])"

definition FormatUint :: "64 word \<Rightarrow> string" where
  "FormatUint x = decimal (unat x)"

text \<open>
  \<^verbatim>\<open>getCRIToolsLatestVersion\<close> (lines 289-306). The test of \<^verbatim>\<open>err\<close> at line 301
  follows a successful parse, so it never fires.
\<close>

definition getCRIToolsLatestVersion :: "env \<Rightarrow> trace \<Rightarrow> (error + string) \<times> trace" where
  "getCRIToolsLatestVersion e tr =
     (case getStableKubeVersion e tr of
        (Inl err, tr') \<Rightarrow> (Inl err, tr')
      | (Inr kv, tr') \<Rightarrow>
          (case semverParse e kv of
             Inl m \<Rightarrow> (Inl (ParseError m), tr')
           | Inr (major, minor) \<Rightarrow>
               (Inr (FormatUint major @ ''.'' @ FormatUint minor @ ''.0''), tr')))"

text \<open>\<^verbatim>\<open>getCIBuildsDownloadLinkBase\<close> (lines 312-319); the argument is not used.\<close>

definition getCIBuildsDownloadLinkBase ::
  "env \<Rightarrow> versionData \<Rightarrow> trace \<Rightarrow> (error + string) \<times> trace" where
  "getCIBuildsDownloadLinkBase e v tr =
     (case getLatestKubeCIBuild e tr of
        (Inl err, tr') \<Rightarrow> (Inl err, tr')
      | (Inr latestCiVersion, tr') \<Rightarrow>
          (Inr (''https://dl.k8s.io/ci-cross/v'' @ latestCiVersion), tr'))"

text \<open>\<^verbatim>\<open>getReleaseDownloadLinkBase\<close> (lines 321-323).\<close>

definition getReleaseDownloadLinkBase ::
  "flags \<Rightarrow> versionData \<Rightarrow> 's \<Rightarrow> (error + string) \<times> 's" where
  "getReleaseDownloadLinkBase fl v s =
     (Inr (releaseDownloadLinkBase fl @ ''/v'' @ Version v), s)"

section \<open>Build matrix walker\<close>

text \<open>
  \<^verbatim>\<open>walkBuilds\<close> (lines 223-254). The loop variable \<^verbatim>\<open>v\<close> of
  \<^verbatim>\<open>for _, v := range b.Versions\<close> is a copy of the slice element: the two
  assignments below change the copy, and \<^verbatim>\<open>b.Versions\<close> stays as it was built.

  Lines 229-235: the version is fetched when it is empty and a resolver is present.
\<close>

definition populateVersion :: "'s version \<Rightarrow> 's \<Rightarrow> (error + 's version) \<times> 's" where
  "populateVersion v s =
     (if length (Version v) = 0 \<and> GetVersion v \<noteq> None then
        (case the (GetVersion v) s of
           (Inl err, s') \<Rightarrow> (Inl err, s')
         | (Inr x, s') \<Rightarrow> (Inr (v\<lparr>Version := x\<rparr>), s'))
      else (Inr v, s))"

text \<open>Lines 238-244: the same for the download link base, which is given \<^verbatim>\<open>v\<close>.\<close>

definition populateDownloadLinkBase :: "'s version \<Rightarrow> 's \<Rightarrow> (error + 's version) \<times> 's" where
  "populateDownloadLinkBase v s =
     (if length (DownloadLinkBase v) = 0 \<and> GetDownloadLinkBase v \<noteq> None then
        (case the (GetDownloadLinkBase v) (versionData.truncate v) s of
           (Inl err, s') \<Rightarrow> (Inl err, s')
         | (Inr x, s') \<Rightarrow> (Inr (v\<lparr>DownloadLinkBase := x\<rparr>), s'))
      else (Inr v, s))"

text \<open>The body of the innermost loop (lines 228-248), for the callback \<open>f\<close>.\<close>

definition walkBody ::
  "(string \<Rightarrow> string \<Rightarrow> string \<Rightarrow> 's version \<Rightarrow> 's \<Rightarrow> error option \<times> 's) \<Rightarrow>
   string \<Rightarrow> string \<Rightarrow> string \<Rightarrow> 's version \<Rightarrow> 's \<Rightarrow> error option \<times> 's" where
  "walkBody f pkg d a v s =
     (case populateVersion v s of
        (Inl err, s1) \<Rightarrow> (Some err, s1)
      | (Inr v1, s1) \<Rightarrow>
          (case populateDownloadLinkBase v1 s1 of
             (Inl err, s2) \<Rightarrow> (Some err, s2)
           | (Inr v2, s2) \<Rightarrow> f pkg d a v2 s2))"

text \<open>The four loops, innermost first; each returns at the first error.\<close>

fun walkVersions ::
  "(string \<Rightarrow> string \<Rightarrow> string \<Rightarrow> 's version \<Rightarrow> 's \<Rightarrow> error option \<times> 's) \<Rightarrow>
   string \<Rightarrow> string \<Rightarrow> string \<Rightarrow> 's version list \<Rightarrow> 's \<Rightarrow> error option \<times> 's" where
  "walkVersions f pkg d a [] s = (None, s)"
| "walkVersions f pkg d a (v # vs) s =
     (case walkBody f pkg d a v s of
        (Some err, s') \<Rightarrow> (Some err, s')
      | (None, s') \<Rightarrow> walkVersions f pkg d a vs s')"

fun walkDistros ::
  "(string \<Rightarrow> string \<Rightarrow> string \<Rightarrow> 's version \<Rightarrow> 's \<Rightarrow> error option \<times> 's) \<Rightarrow>
   's build \<Rightarrow> string \<Rightarrow> string list \<Rightarrow> 's \<Rightarrow> error option \<times> 's" where
  "walkDistros f b a [] s = (None, s)"
| "walkDistros f b a (d # ds) s =
     (case walkVersions f (build.Package b) d a (Versions b) s of
        (Some err, s') \<Rightarrow> (Some err, s')
      | (None, s') \<Rightarrow> walkDistros f b a ds s')"

fun walkPackages ::
  "(string \<Rightarrow> string \<Rightarrow> string \<Rightarrow> 's version \<Rightarrow> 's \<Rightarrow> error option \<times> 's) \<Rightarrow>
   string \<Rightarrow> 's build list \<Rightarrow> 's \<Rightarrow> error option \<times> 's" where
  "walkPackages f a [] s = (None, s)"
| "walkPackages f a (b # bs) s =
     (case walkDistros f b a (Distros b) s of
        (Some err, s') \<Rightarrow> (Some err, s')
      | (None, s') \<Rightarrow> walkPackages f a bs s')"

fun walkArchitectures ::
  "(string \<Rightarrow> string \<Rightarrow> string \<Rightarrow> 's version \<Rightarrow> 's \<Rightarrow> error option \<times> 's) \<Rightarrow>
   's build list \<Rightarrow> string list \<Rightarrow> 's \<Rightarrow> error option \<times> 's" where
  "walkArchitectures f builds [] s = (None, s)"
| "walkArchitectures f builds (a # as) s =
     (case walkPackages f a builds s of
        (Some err, s') \<Rightarrow> (Some err, s')
      | (None, s') \<Rightarrow> walkArchitectures f builds as s')"

text \<open>
  \<^verbatim>\<open>walkBuilds\<close> reads the package-level variable \<^verbatim>\<open>architectures\<close>; here it is
  the first argument.
\<close>

definition walkBuilds ::
  "string list \<Rightarrow> 's build list \<Rightarrow>
   (string \<Rightarrow> string \<Rightarrow> string \<Rightarrow> 's version \<Rightarrow> 's \<Rightarrow> error option \<times> 's) \<Rightarrow>
   's \<Rightarrow> error option \<times> 's" where
  "walkBuilds archs builds f s = walkArchitectures f builds archs s"

section \<open>Template renderer, packager and artifact placement\<close>

text \<open>The library and system calls of \<^verbatim>\<open>run\<close>: each asks the environment and records the call.\<close>

definition ioutil_TempDir :: "env \<Rightarrow> trace \<Rightarrow> (error + string) \<times> trace" where
  "ioutil_TempDir e tr =
     (let r = osTempDir e tr in (map_sum FilesystemError id r, tr @ [TempDir r]))"

definition filepath_EvalSymlinks :: "env \<Rightarrow> string \<Rightarrow> trace \<Rightarrow> (error + string) \<times> trace" where
  "filepath_EvalSymlinks e path tr =
     (let r = evalSymlinks e tr path in
      (map_sum FilesystemError id r, tr @ [EvalSymlinks path r]))"

definition os_Mkdir :: "env \<Rightarrow> string \<Rightarrow> 32 word \<Rightarrow> trace \<Rightarrow> error option \<times> trace" where
  "os_Mkdir e path perm tr =
     (let r = osMkdir e tr path perm in
      (map_option FilesystemError r, tr @ [Mkdir path perm r]))"

definition os_MkdirAll :: "env \<Rightarrow> string \<Rightarrow> 32 word \<Rightarrow> trace \<Rightarrow> error option \<times> trace" where
  "os_MkdirAll e path perm tr =
     (let r = osMkdirAll e tr path perm in
      (map_option FilesystemError r, tr @ [MkdirAll path perm r]))"

definition os_OpenFile :: "env \<Rightarrow> string \<Rightarrow> trace \<Rightarrow> error option \<times> trace" where
  "os_OpenFile e path tr =
     (let r = openFile e tr path in
      (map_option FilesystemError r, tr @ [OpenFile path r]))"

definition os_Chmod :: "env \<Rightarrow> string \<Rightarrow> 32 word \<Rightarrow> trace \<Rightarrow> error option \<times> trace" where
  "os_Chmod e path perm tr =
     (let r = osChmod e tr path perm in
      (map_option FilesystemError r, tr @ [Chmod path perm r]))"

text \<open>
  The names of the template helpers (\<^verbatim>\<open>builtins\<close>, lines 87-91) and the template of
  lines 163-167: \<^verbatim>\<open>New("").Funcs(builtins).Option("missingkey=error").ParseFiles(srcfile)\<close>.
\<close>

definition builtins :: "string list" where
  "builtins = [''date'']"

definition template_ParseFiles :: "env \<Rightarrow> string \<Rightarrow> trace \<Rightarrow> (error + template) \<times> trace" where
  "template_ParseFiles e srcfile tr =
     (let r = parseFiles e tr srcfile; tr' = tr @ [ParseFiles srcfile r] in
      case r of
        Inl m \<Rightarrow> (Inl (TemplateError m), tr')
      | Inr body \<Rightarrow>
          (Inr \<lparr>tmplFuncs = builtins, tmplOptions = [''missingkey=error''],
                tmplFile = srcfile, tmplBody = body\<rparr>, tr'))"

text \<open>
  The fields of \<^verbatim>\<open>cfg\<close> by name (lines 46-62, the embedded \<^verbatim>\<open>version\<close> included),
  and the text of those that hold a string: the substitution context that
  \<^verbatim>\<open>w.t.Execute(f, c)\<close> hands to the engine.
\<close>

definition cfgFieldNames :: "string list" where
  "cfgFieldNames =
     [''Version'', ''Revision'', ''DownloadLinkBase'', ''Channel'', ''GetVersion'',
      ''GetDownloadLinkBase'', ''DistroName'', ''Arch'', ''DebArch'', ''Package'',
      ''Dependencies'']"

definition cfgField :: "'s cfg \<Rightarrow> string \<Rightarrow> string option" where
  "cfgField c name =
     (if name = ''Version'' then Some (Version c)
      else if name = ''Revision'' then Some (Revision c)
      else if name = ''DownloadLinkBase'' then Some (DownloadLinkBase c)
      else if name = ''Channel'' then Some (Channel c)
      else if name = ''DistroName'' then Some (DistroName c)
      else if name = ''Arch'' then Some (Arch c)
      else if name = ''DebArch'' then Some (DebArch c)
      else if name = ''Package'' then Some (cfg.Package c)
      else if name = ''Dependencies'' then Some (Dependencies c)
      else None)"

text \<open>
  Modelled from the spec: the template engine, which is the library
  \<^verbatim>\<open>text/template\<close> and not among the sources. The spec says that every file is
  rendered with the job configuration as the substitution context, and that rendering
  fails if a referenced configuration field is absent, rather than emitting an empty
  value. So a node gives its text, or an error: a field gives the text the context
  has for its name and fails when the context has none; a helper gives what the
  helper returns and fails when the template was not given that helper.
\<close>

fun nodeValue ::
  "env \<Rightarrow> trace \<Rightarrow> (string \<Rightarrow> string option) \<Rightarrow> string list \<Rightarrow> tmplNode \<Rightarrow> string + string" where
  "nodeValue e tr ctx funcs (Text s) = Inr s"
| "nodeValue e tr ctx funcs (Field name) =
     (case ctx name of
        None \<Rightarrow> Inl (''missing key '' @ name)
      | Some x \<Rightarrow> Inr x)"
| "nodeValue e tr ctx funcs (Helper name) =
     (if name \<in> set funcs then Inr (helperValue e tr name)
      else Inl (''function not defined '' @ name))"

text \<open>
  Modelled from the spec: rendering goes through the nodes in order and writes the
  text of each to the open file \<open>path\<close>; it stops at the first node that fails and at
  the first write that fails. The result is what was written and the error, if any.
\<close>

fun renderNodes ::
  "env \<Rightarrow> trace \<Rightarrow> string \<Rightarrow> (string \<Rightarrow> string option) \<Rightarrow> string list \<Rightarrow> tmplNode list \<Rightarrow>
   string \<Rightarrow> string \<times> string option" where
  "renderNodes e tr path ctx funcs [] out = (out, None)"
| "renderNodes e tr path ctx funcs (n # ns) out =
     (case nodeValue e tr ctx funcs n of
        Inl m \<Rightarrow> (out, Some m)
      | Inr piece \<Rightarrow>
          (case tmplWrite e tr path out piece of
             Some m \<Rightarrow> (out, Some m)
           | None \<Rightarrow> renderNodes e tr path ctx funcs ns (out @ piece)))"

text \<open>
  \<^verbatim>\<open>w.t.Execute(f, c)\<close> (line 192), where \<^verbatim>\<open>f\<close> is the open file \<open>path\<close> and the
  context is the job configuration \<^verbatim>\<open>c\<close>.
\<close>

definition template_Execute ::
  "env \<Rightarrow> template \<Rightarrow> string \<Rightarrow> trace cfg \<Rightarrow> trace \<Rightarrow> error option \<times> trace" where
  "template_Execute e tp path c tr =
     (let (out, r) = renderNodes e tr path (cfgField c) (tmplFuncs tp) (tmplBody tp) [] in
      (map_option TemplateError r, tr @ [Execute path tp out r]))"

text \<open>\<^verbatim>\<open>runCommand\<close> (lines 118-129).\<close>

definition runCommand ::
  "env \<Rightarrow> string \<Rightarrow> string \<Rightarrow> string list \<Rightarrow> trace \<Rightarrow> error option \<times> trace" where
  "runCommand e pwd command cmdArgs tr =
     (let r = cmdRun e tr pwd command cmdArgs in
      (map_option ProcessError r, tr @ [RunCommand pwd command cmdArgs r]))"

text \<open>
  The function given to \<^verbatim>\<open>filepath.Walk\<close> (lines 151-179), for one visited entry;
  \<open>w\<close> is the work list collected so far. The slice expression
  \<^verbatim>\<open>srcfile[len(realSrcdir):]\<close> panics when \<^verbatim>\<open>srcfile\<close> is the shorter string.
\<close>

definition walkFn ::
  "env \<Rightarrow> string \<Rightarrow> string \<Rightarrow> string \<times> FileInfo \<times> string option \<Rightarrow> work list \<Rightarrow>
   trace \<Rightarrow> (error + work list) \<times> trace" where
  "walkFn e dstdir realSrcdir entry w tr =
     (case entry of (srcfile, f, err) \<Rightarrow>
        (case err of
           Some m \<Rightarrow> (Inl (FilesystemError m), tr)
         | None \<Rightarrow>
             if length srcfile < length realSrcdir
             then (Inl (Panic ''slice bounds out of range''), tr)
             else
               (let dstfile = pathJoin e [dstdir, drop (length realSrcdir) srcfile] in
                if dstfile = dstdir then (Inr w, tr)
                else if IsDir f then
                  (case os_Mkdir e dstfile (Mode f) tr of
                     (Some err', tr') \<Rightarrow> (Inl err', tr')
                   | (None, tr') \<Rightarrow> (Inr w, tr'))
                else
                  (case template_ParseFiles e srcfile tr of
                     (Inl err', tr') \<Rightarrow> (Inl err', tr')
                   | (Inr tp, tr') \<Rightarrow>
                       (Inr (w @ [\<lparr>src = srcfile, dst = dstfile, tmpl = tp, info = f\<rparr>]),
                        tr')))))"

text \<open>\<^verbatim>\<open>filepath.Walk\<close> calls the function on each entry and stops at the first error.\<close>

fun walkLoop ::
  "env \<Rightarrow> string \<Rightarrow> string \<Rightarrow> (string \<times> FileInfo \<times> string option) list \<Rightarrow> work list \<Rightarrow>
   trace \<Rightarrow> (error + work list) \<times> trace" where
  "walkLoop e dstdir realSrcdir [] w tr = (Inr w, tr)"
| "walkLoop e dstdir realSrcdir (entry # entries) w tr =
     (case walkFn e dstdir realSrcdir entry w tr of
        (Inl err, tr') \<Rightarrow> (Inl err, tr')
      | (Inr w', tr') \<Rightarrow> walkLoop e dstdir realSrcdir entries w' tr')"

definition filepath_Walk ::
  "env \<Rightarrow> string \<Rightarrow> string \<Rightarrow> trace \<Rightarrow> (error + work list) \<times> trace" where
  "filepath_Walk e dstdir realSrcdir tr =
     walkLoop e dstdir realSrcdir (walkEntries e tr realSrcdir) [] (tr @ [WalkDir realSrcdir])"

text \<open>
  The body of the rendering loop (lines 184-201): open the destination, execute the
  template into it, set the mode; the deferred \<^verbatim>\<open>f.Close()\<close> runs once the file is
  open, whatever follows.
\<close>

definition renderWork :: "env \<Rightarrow> trace cfg \<Rightarrow> work \<Rightarrow> trace \<Rightarrow> error option \<times> trace" where
  "renderWork e c w tr =
     (case os_OpenFile e (dst w) tr of
        (Some err, tr1) \<Rightarrow> (Some err, tr1)
      | (None, tr1) \<Rightarrow>
          (case (case template_Execute e (tmpl w) (dst w) c tr1 of
                   (Some err, tr2) \<Rightarrow> (Some err, tr2)
                 | (None, tr2) \<Rightarrow> os_Chmod e (dst w) (Mode (info w)) tr2) of
             (r, tr3) \<Rightarrow> (r, tr3 @ [CloseFile (dst w)])))"

fun renderLoop :: "env \<Rightarrow> trace cfg \<Rightarrow> work list \<Rightarrow> trace \<Rightarrow> error option \<times> trace" where
  "renderLoop e c [] tr = (None, tr)"
| "renderLoop e c (w # ws) tr =
     (case renderWork e c w tr of
        (Some err, tr') \<Rightarrow> (Some err, tr')
      | (None, tr') \<Rightarrow> renderLoop e c ws tr')"

text \<open>
  \<^verbatim>\<open>cfg.run\<close> from line 146 on, with the staging directory \<open>dstdir\<close> in hand:
  resolve the source directory, walk it, render, run the packaging tool (line 204),
  create the output directory (line 212, its result is dropped) and move the package
  (line 215).
\<close>

definition runStaged ::
  "env \<Rightarrow> trace cfg \<Rightarrow> string \<Rightarrow> string \<Rightarrow> trace \<Rightarrow> error option \<times> trace" where
  "runStaged e c srcdir dstdir tr =
     (case filepath_EvalSymlinks e srcdir tr of
        (Inl err, tr1) \<Rightarrow> (Some err, tr1)
      | (Inr realSrcdir, tr1) \<Rightarrow>
          (case filepath_Walk e dstdir realSrcdir tr1 of
             (Inl err, tr2) \<Rightarrow> (Some err, tr2)
           | (Inr w, tr2) \<Rightarrow>
               (case renderLoop e c w tr2 of
                  (Some err, tr3) \<Rightarrow> (Some err, tr3)
                | (None, tr3) \<Rightarrow>
                    (case runCommand e dstdir ''dpkg-buildpackage''
                            [''-us'', ''-uc'', ''-b'', ''-a'' @ DebArch c] tr3 of
                       (Some err, tr4) \<Rightarrow> (Some err, tr4)
                     | (None, tr4) \<Rightarrow>
                         (let dstParts = [''bin'', Channel c, DistroName c];
                              dstPath = pathJoin e dstParts;
                              tr5 = snd (os_MkdirAll e dstPath 511 tr4);
                              fileName = cfg.Package c @ ''_'' @ Version c @ ''-'' @
                                         Revision c @ ''_'' @ DebArch c @ ''.deb''
                          in runCommand e [] ''mv''
                               [pathJoin e [''/tmp'', fileName], dstPath] tr5)))))"

text \<open>
  \<^verbatim>\<open>cfg.run\<close> (lines 131-221). The deferred \<^verbatim>\<open>os.RemoveAll(dstdir)\<close> runs on every
  return after the staging directory exists, unless \<^verbatim>\<open>-keep-tmp\<close> is set. The
  permission \<^verbatim>\<open>0777\<close> is 511. Output of \<^verbatim>\<open>log.Printf\<close> is not part of the trace.
\<close>

definition run :: "env \<Rightarrow> flags \<Rightarrow> trace cfg \<Rightarrow> trace \<Rightarrow> error option \<times> trace" where
  "run e fl c tr =
     (let srcdir = pathJoin e [DistroName c, cfg.Package c] in
      case ioutil_TempDir e tr of
        (Inl err, tr1) \<Rightarrow> (Some err, tr1)
      | (Inr dstdir, tr1) \<Rightarrow>
          (case runStaged e c srcdir dstdir tr1 of
             (r, tr2) \<Rightarrow> (r, if keepTmp fl then tr2 else tr2 @ [RemoveAll dstdir])))"

section \<open>The program\<close>

text \<open>
  The job configuration that the callback of \<^verbatim>\<open>main\<close> builds (lines 512-527): the
  struct literal, then the packaging-tool architecture name, then the dependencies.
  The test of \<^verbatim>\<open>err\<close> at line 528 follows \<^verbatim>\<open>var err error\<close>, so it never fires.
\<close>

definition debArchOf :: "string \<Rightarrow> string" where
  "debArchOf arch =
     (if arch = ''arm'' then ''armhf''
      else if arch = ''ppc64le'' then ''ppc64el''
      else arch)"

definition jobCfg :: "string \<Rightarrow> string \<Rightarrow> string \<Rightarrow> 's version \<Rightarrow> 's cfg" where
  "jobCfg pkg distro arch v =
     (let c = \<lparr>Version = Version v, Revision = Revision v,
                DownloadLinkBase = DownloadLinkBase v, Channel = Channel v,
                GetVersion = GetVersion v, GetDownloadLinkBase = GetDownloadLinkBase v,
                DistroName = distro, Arch = arch, DebArch = [], Package = pkg,
                Dependencies = []\<rparr>;
          c = c\<lparr>DebArch := debArchOf (Arch c)\<rparr>;
          c = c\<lparr>Dependencies := KubeadmDependencies\<rparr>
      in c)"

definition jobCallback ::
  "env \<Rightarrow> flags \<Rightarrow> string \<Rightarrow> string \<Rightarrow> string \<Rightarrow> trace version \<Rightarrow> trace \<Rightarrow>
   error option \<times> trace" where
  "jobCallback e fl pkg distro arch v = run e fl (jobCfg pkg distro arch v)"

text \<open>
  The build matrix of \<^verbatim>\<open>main\<close> (lines 328-443). A field that a struct literal leaves
  out has Go's zero value: the empty string, or \<^verbatim>\<open>nil\<close>.
\<close>

definition defaultBuilds :: "env \<Rightarrow> flags \<Rightarrow> trace build list" where
  "defaultBuilds e fl =
     [\<lparr>build.Package = ''kubectl'', Distros = distros fl,
        Versions =
          [\<lparr>Version = [], Revision = revision fl, DownloadLinkBase = [],
            Channel = ChannelStable,
            GetVersion = Some (getStableKubeVersion e),
            GetDownloadLinkBase = Some (getReleaseDownloadLinkBase fl)\<rparr>,
           \<lparr>Version = [], Revision = revision fl, DownloadLinkBase = [],
            Channel = ChannelUnstable,
            GetVersion = Some (getLatestKubeVersion e),
            GetDownloadLinkBase = Some (getReleaseDownloadLinkBase fl)\<rparr>,
           \<lparr>Version = [], Revision = revision fl, DownloadLinkBase = [],
            Channel = ChannelNightly,
            GetVersion = Some (getKubeCIVersion e),
            GetDownloadLinkBase = Some (getCIBuildsDownloadLinkBase e)\<rparr>]\<rparr>,
      \<lparr>build.Package = ''kubelet'', Distros = distros fl,
        Versions =
          [\<lparr>Version = [], Revision = revision fl, DownloadLinkBase = [],
            Channel = ChannelStable,
            GetVersion = Some (getStableKubeVersion e),
            GetDownloadLinkBase = Some (getReleaseDownloadLinkBase fl)\<rparr>,
           \<lparr>Version = [], Revision = revision fl, DownloadLinkBase = [],
            Channel = ChannelUnstable,
            GetVersion = Some (getLatestKubeVersion e),
            GetDownloadLinkBase = Some (getReleaseDownloadLinkBase fl)\<rparr>,
           \<lparr>Version = [], Revision = revision fl, DownloadLinkBase = [],
            Channel = ChannelNightly,
            GetVersion = Some (getKubeCIVersion e),
            GetDownloadLinkBase = Some (getCIBuildsDownloadLinkBase e)\<rparr>]\<rparr>,
      \<lparr>build.Package = ''kubernetes-cni'', Distros = distros fl,
        Versions =
          [\<lparr>Version = minimumCNIVersion, Revision = revision fl, DownloadLinkBase = [],
            Channel = ChannelStable,
            GetVersion = None,
            GetDownloadLinkBase = None\<rparr>,
           \<lparr>Version = minimumCNIVersion, Revision = revision fl, DownloadLinkBase = [],
            Channel = ChannelUnstable,
            GetVersion = None,
            GetDownloadLinkBase = None\<rparr>,
           \<lparr>Version = minimumCNIVersion, Revision = revision fl, DownloadLinkBase = [],
            Channel = ChannelNightly,
            GetVersion = None,
            GetDownloadLinkBase = None\<rparr>]\<rparr>,
      \<lparr>build.Package = ''kubeadm'', Distros = distros fl,
        Versions =
          [\<lparr>Version = [], Revision = revision fl, DownloadLinkBase = [],
            Channel = ChannelStable,
            GetVersion = Some (getStableKubeVersion e),
            GetDownloadLinkBase = Some (getReleaseDownloadLinkBase fl)\<rparr>,
           \<lparr>Version = [], Revision = revision fl, DownloadLinkBase = [],
            Channel = ChannelUnstable,
            GetVersion = Some (getLatestKubeVersion e),
            GetDownloadLinkBase = Some (getReleaseDownloadLinkBase fl)\<rparr>,
           \<lparr>Version = [], Revision = revision fl, DownloadLinkBase = [],
            Channel = ChannelNightly,
            GetVersion = Some (getKubeCIVersion e),
            GetDownloadLinkBase = Some (getCIBuildsDownloadLinkBase e)\<rparr>]\<rparr>,
      \<lparr>build.Package = ''cri-tools'', Distros = distros fl,
        Versions =
          [\<lparr>Version = [], Revision = revision fl, DownloadLinkBase = [],
            Channel = ChannelStable,
            GetVersion = Some (getCRIToolsLatestVersion e),
            GetDownloadLinkBase = None\<rparr>,
           \<lparr>Version = [], Revision = revision fl, DownloadLinkBase = [],
            Channel = ChannelUnstable,
            GetVersion = Some (getCRIToolsLatestVersion e),
            GetDownloadLinkBase = None\<rparr>,
           \<lparr>Version = [], Revision = revision fl, DownloadLinkBase = [],
            Channel = ChannelNightly,
            GetVersion = Some (getCRIToolsLatestVersion e),
            GetDownloadLinkBase = None\<rparr>]\<rparr>]"

text \<open>The closure \<^verbatim>\<open>getSpecifiedVersion\<close> (lines 446-448).\<close>

definition getSpecifiedVersion :: "flags \<Rightarrow> 's \<Rightarrow> (error + string) \<times> 's" where
  "getSpecifiedVersion fl s = (Inr (kubeVersion fl), s)"

text \<open>The matrix that replaces it when \<^verbatim>\<open>-kube-version\<close> is given (lines 449-508).\<close>

definition pinnedBuilds :: "env \<Rightarrow> flags \<Rightarrow> trace build list" where
  "pinnedBuilds e fl =
     [\<lparr>build.Package = ''kubectl'', Distros = distros fl,
        Versions =
          [\<lparr>Version = [], Revision = revision fl, DownloadLinkBase = [],
            Channel = ChannelStable,
            GetVersion = Some (getSpecifiedVersion fl),
            GetDownloadLinkBase = Some (getReleaseDownloadLinkBase fl)\<rparr>]\<rparr>,
      \<lparr>build.Package = ''kubelet'', Distros = distros fl,
        Versions =
          [\<lparr>Version = [], Revision = revision fl, DownloadLinkBase = [],
            Channel = ChannelStable,
            GetVersion = Some (getSpecifiedVersion fl),
            GetDownloadLinkBase = Some (getReleaseDownloadLinkBase fl)\<rparr>]\<rparr>,
      \<lparr>build.Package = ''kubernetes-cni'', Distros = distros fl,
        Versions =
          [\<lparr>Version = minimumCNIVersion, Revision = revision fl, DownloadLinkBase = [],
            Channel = ChannelStable,
            GetVersion = None,
            GetDownloadLinkBase = None\<rparr>]\<rparr>,
      \<lparr>build.Package = ''kubeadm'', Distros = distros fl,
        Versions =
          [\<lparr>Version = [], Revision = revision fl, DownloadLinkBase = [],
            Channel = ChannelStable,
            GetVersion = Some (getSpecifiedVersion fl),
            GetDownloadLinkBase = Some (getReleaseDownloadLinkBase fl)\<rparr>]\<rparr>,
      \<lparr>build.Package = ''cri-tools'', Distros = distros fl,
        Versions =
          [\<lparr>Version = [], Revision = revision fl, DownloadLinkBase = [],
            Channel = ChannelStable,
            GetVersion = Some (getCRIToolsLatestVersion e),
            GetDownloadLinkBase = None\<rparr>]\<rparr>]"

definition mainBuilds :: "env \<Rightarrow> flags \<Rightarrow> trace build list" where
  "mainBuilds e fl = (if kubeVersion fl \<noteq> [] then pinnedBuilds e fl else defaultBuilds e fl)"

text \<open>
  \<^verbatim>\<open>main\<close> (lines 325-536) after \<^verbatim>\<open>flag.Parse\<close>: the result is the exit status
  and the trace of the run. \<^verbatim>\<open>log.Fatalf\<close> ends the process with status 1, a
  panic with status 2.
\<close>

definition main :: "env \<Rightarrow> flags \<Rightarrow> trace \<Rightarrow> nat \<times> trace" where
  "main e fl tr =
     (case walkBuilds (architectures fl) (mainBuilds e fl) (jobCallback e fl) tr of
        (Some (Panic m), tr') \<Rightarrow> (2, tr')
      | (Some err, tr') \<Rightarrow> (1, tr')
      | (None, tr') \<Rightarrow> (0, tr'))"

section \<open>Notions used in the properties\<close>

text \<open>
  The combinations that \<^verbatim>\<open>walkBuilds\<close> visits, in its order: architectures
  outermost, then packages, distributions and version specs. Each is written as the
  callback receives it: package, distribution, architecture, spec.
\<close>

definition combos ::
  "string list \<Rightarrow> 's build list \<Rightarrow> (string \<times> string \<times> string \<times> 's version) list" where
  "combos archs builds =
     concat (map (\<lambda>a.
       concat (map (\<lambda>b.
         concat (map (\<lambda>d.
           map (\<lambda>v. (build.Package b, d, a, v)) (Versions b))
         (Distros b)))
       builds))
     archs)"

text \<open>Running the loop body over a list of combinations, one after the other.\<close>

fun walkCombos ::
  "(string \<Rightarrow> string \<Rightarrow> string \<Rightarrow> 's version \<Rightarrow> 's \<Rightarrow> error option \<times> 's) \<Rightarrow>
   (string \<times> string \<times> string \<times> 's version) list \<Rightarrow> 's \<Rightarrow> error option \<times> 's" where
  "walkCombos f [] s = (None, s)"
| "walkCombos f ((pkg, d, a, v) # js) s =
     (case walkBody f pkg d a v s of
        (Some err, s') \<Rightarrow> (Some err, s')
      | (None, s') \<Rightarrow> walkCombos f js s')"

text \<open>Kinds of events in a trace.\<close>

fun isRunCommand :: "event \<Rightarrow> bool" where
  "isRunCommand (RunCommand pwd command cmdArgs r) = True"
| "isRunCommand _ = False"

fun isMove :: "event \<Rightarrow> bool" where
  "isMove (RunCommand pwd command cmdArgs r) = (command = ''mv'')"
| "isMove _ = False"

fun isMkdirAll :: "event \<Rightarrow> bool" where
  "isMkdirAll (MkdirAll path perm r) = True"
| "isMkdirAll _ = False"

text \<open>The events of the directory walk, and those of the rendering loop.\<close>

fun isWalkEvent :: "event \<Rightarrow> bool" where
  "isWalkEvent (WalkDir root) = True"
| "isWalkEvent (Mkdir path perm r) = True"
| "isWalkEvent (ParseFiles srcfile r) = True"
| "isWalkEvent _ = False"

fun isRenderEvent :: "event \<Rightarrow> bool" where
  "isRenderEvent (OpenFile path r) = True"
| "isRenderEvent (Execute path tp out r) = (tmplOptions tp = [''missingkey=error''])"
| "isRenderEvent (CloseFile path) = True"
| "isRenderEvent (Chmod path perm r) = True"
| "isRenderEvent _ = False"

text \<open>The events that a step adds to the trace \<open>tr\<close> it started from.\<close>

definition emitted :: "trace \<Rightarrow> trace \<Rightarrow> trace" where
  "emitted tr tr' = drop (length tr) tr'"

text \<open>
  A work item whose template was built with the option \<^verbatim>\<open>missingkey=error\<close>, and
  an event that is not an execution of a template without that option.
\<close>

definition workOk :: "work \<Rightarrow> bool" where
  "workOk w = (tmplOptions (tmpl w) = [''missingkey=error''])"

fun missingKeyIsError :: "event \<Rightarrow> bool" where
  "missingKeyIsError (Execute path tp out r) = (''missingkey=error'' \<in> set (tmplOptions tp))"
| "missingKeyIsError _ = True"

text \<open>The error that a template execution reported, if the event is one and it failed.\<close>

definition execFailure :: "event \<Rightarrow> string option" where
  "execFailure ev = (case ev of Execute path tp out r \<Rightarrow> r | _ \<Rightarrow> None)"

text \<open>
  A node that refers to a field the job configuration does not have, and an event
  that is not an execution which got past such a node without an error.
\<close>

fun refsAbsent :: "tmplNode \<Rightarrow> bool" where
  "refsAbsent (Field name) = (name \<notin> set cfgFieldNames)"
| "refsAbsent _ = False"

definition execSound :: "event \<Rightarrow> bool" where
  "execSound ev =
     (case ev of
        Execute path tp out r \<Rightarrow> list_ex refsAbsent (tmplBody tp) \<longrightarrow> r \<noteq> None
      | _ \<Rightarrow> True)"

text \<open>The events of \<^verbatim>\<open>run\<close> before the packaging tool starts.\<close>

fun isStagingEvent :: "event \<Rightarrow> bool" where
  "isStagingEvent (EvalSymlinks path r) = True"
| "isStagingEvent ev = (isWalkEvent ev \<or> isRenderEvent ev)"

text \<open>
  What \<^verbatim>\<open>run\<close> does after rendering, with the result \<open>r\<close> it returns: nothing
  (rendering failed), or a packaging tool that failed, or a packaging tool that
  succeeded, followed by \<^verbatim>\<open>os.MkdirAll\<close> and \<^verbatim>\<open>mv\<close>.
\<close>

definition placementTail :: "string \<Rightarrow> error option \<Rightarrow> trace \<Rightarrow> bool" where
  "placementTail dstdir r rest =
     (rest = [] \<or>
      (\<exists>cmdArgs m. rest = [RunCommand dstdir ''dpkg-buildpackage'' cmdArgs (Some m)] \<and>
         r = Some (ProcessError m)) \<or>
      (\<exists>cmdArgs path x mvArgs y.
         rest = [RunCommand dstdir ''dpkg-buildpackage'' cmdArgs None, MkdirAll path 511 x,
                 RunCommand [] ''mv'' mvArgs y] \<and>
         r = map_option ProcessError y))"

subsection \<open>Sample environments\<close>

text \<open>
  An environment in which every call succeeds: the version manifests answer
  \<^verbatim>\<open>v1.20.0\<close> and a line feed, the source tree holds one directory and one file.
\<close>

fun squeeze :: "string \<Rightarrow> string" where
  "squeeze (x # y # cs) =
     (if x = CHR ''/'' \<and> y = CHR ''/'' then squeeze (y # cs) else x # squeeze (y # cs))"
| "squeeze cs = cs"

definition sampleJoin :: "string list \<Rightarrow> string" where
  "sampleJoin parts = squeeze (strings_Join (filter (\<lambda>p. p \<noteq> []) parts) ''/'')"

definition sampleEnv :: env where
  "sampleEnv = \<lparr>
     httpGet = (\<lambda>tr url. Body (''v1.20.0'' @ [LF])),
     semverParse = (\<lambda>kv. Inr (1, 20)),
     osTempDir = (\<lambda>tr. Inr ''/tmp/debs1''),
     evalSymlinks = (\<lambda>tr path. Inr path),
     walkEntries = (\<lambda>tr root.
        [(root, \<lparr>IsDir = True, Mode = 493\<rparr>, None),
         (root @ ''/debian'', \<lparr>IsDir = True, Mode = 493\<rparr>, None),
         (root @ ''/debian/control'', \<lparr>IsDir = False, Mode = 420\<rparr>, None)]),
     osMkdir = (\<lambda>tr path perm. None),
     parseFiles = (\<lambda>tr srcfile. Inr [Text ''Package: '', Field ''Package'']),
     openFile = (\<lambda>tr path. None),
     helperValue = (\<lambda>tr name. ''Mon, 02 Jan 2006 15:04:05 -0700''),
     tmplWrite = (\<lambda>tr path out piece. None),
     osChmod = (\<lambda>tr path perm. None),
     cmdRun = (\<lambda>tr pwd command cmdArgs. None),
     osMkdirAll = (\<lambda>tr path perm. None),
     pathJoin = sampleJoin \<rparr>"

text \<open>The same, with a packaging tool that exits with status 2.\<close>

definition dpkgFailsEnv :: env where
  "dpkgFailsEnv = sampleEnv\<lparr>cmdRun := (\<lambda>tr pwd command cmdArgs.
     if command = ''dpkg-buildpackage'' then Some ''exit status 2'' else None)\<rparr>"

text \<open>The same as \<open>sampleEnv\<close>, with an output directory that cannot be created.\<close>

definition mkdirAllFailsEnv :: env where
  "mkdirAllFailsEnv = sampleEnv\<lparr>osMkdirAll := (\<lambda>tr path perm.
     Some ''mkdir bin/stable/xenial: not a directory'')\<rparr>"

text \<open>
  The same as \<open>sampleEnv\<close>, with a template file that refers to \<^verbatim>\<open>Maintainer\<close>,
  which is not a field of \<^verbatim>\<open>cfg\<close>.
\<close>

definition missingFieldEnv :: env where
  "missingFieldEnv = sampleEnv\<lparr>parseFiles := (\<lambda>tr srcfile.
     Inr [Text ''Package: '', Field ''Package'', Text ''; Maintainer: '',
          Field ''Maintainer''])\<rparr>"

text \<open>A spec with a literal version, and a callback that does nothing.\<close>

definition literalSpec :: "string \<Rightarrow> 's version" where
  "literalSpec x = \<lparr>Version = x, Revision = ''00'', DownloadLinkBase = [],
     Channel = ChannelStable, GetVersion = None, GetDownloadLinkBase = None\<rparr>"

definition stableSpec :: "env \<Rightarrow> trace version" where
  "stableSpec e = \<lparr>Version = [], Revision = ''00'', DownloadLinkBase = [],
     Channel = ChannelStable, GetVersion = Some (getStableKubeVersion e),
     GetDownloadLinkBase = Some (getReleaseDownloadLinkBase defaultFlags)\<rparr>"

definition noopCallback ::
  "string \<Rightarrow> string \<Rightarrow> string \<Rightarrow> 's version \<Rightarrow> 's \<Rightarrow> error option \<times> 's" where
  "noopCallback pkg distro arch v s = (None, s)"

text \<open>The same as \<open>sampleEnv\<close>, with a network that refuses every connection.\<close>

definition httpFailsEnv :: env where
  "httpFailsEnv = sampleEnv\<lparr>httpGet := (\<lambda>tr url. GetError ''connection refused'')\<rparr>"

text \<open>A job configuration, a small matrix, and flags that pin the version.\<close>

definition sampleCfg :: "trace cfg" where
  "sampleCfg = jobCfg ''kubectl'' ''xenial'' ''arm'' (literalSpec ''1.20.0'')"

definition sampleBuilds :: "env \<Rightarrow> trace build list" where
  "sampleBuilds e =
     [\<lparr>build.Package = ''kubernetes-cni'', Distros = [''xenial''],
        Versions = [literalSpec minimumCNIVersion]\<rparr>,
      \<lparr>build.Package = ''kubectl'', Distros = [''xenial''],
        Versions = [stableSpec e]\<rparr>]"

definition pinnedFlags :: flags where
  "pinnedFlags = defaultFlags\<lparr>kubeVersion := ''1.19.1''\<rparr>"

section \<open>Properties of the version resolver\<close>

lemma Replace1_last: "c \<notin> set body \<Longrightarrow> Replace1 (body @ [c]) [c] [] = body"
  by (induction body) auto

text \<open>
  Claim C3, as the code has it. A fetched text that starts with \<^verbatim>\<open>v\<close>, ends with a
  line feed and has no other line feed comes back without that \<^verbatim>\<open>v\<close> and without
  that line feed, the rest unchanged.
\<close>

theorem cleanVersion_strips_v_and_newline:
  "LF \<notin> set body \<Longrightarrow> cleanVersion (''v'' @ body @ [LF]) = body"
  by (simp add: cleanVersion_def Replace1_last)

theorem cleanVersion_strips_v_and_newline_witness:
  "LF \<notin> set ''1.20.0'' \<and> cleanVersion (''v'' @ ''1.20.0'' @ [LF]) = ''1.20.0''"
  using cleanVersion_strips_v_and_newline [of "''1.20.0''"] by (simp add: LF_def)

text \<open>
  Claim C3 as written fails on a text with a second line feed: the line feed that goes
  is the first one, not the trailing one.
\<close>

theorem cleanVersion_inner_newline_counterexample:
  "cleanVersion (''v1'' @ [LF] @ ''2'' @ [LF]) = ''12'' @ [LF] \<and>
   cleanVersion (''v1'' @ [LF] @ ''2'' @ [LF]) \<noteq> ''1'' @ [LF] @ ''2''"
  by (simp add: cleanVersion_def LF_def)

section \<open>Properties of the job configuration\<close>

text \<open>
  Claim C4. The packaging-tool architecture of a job is a function of the architecture
  alone: \<^verbatim>\<open>arm\<close> gives \<^verbatim>\<open>armhf\<close>, \<^verbatim>\<open>ppc64le\<close> gives \<^verbatim>\<open>ppc64el\<close>, and every other
  string gives itself.
\<close>

theorem debArch_mapping:
  "DebArch (jobCfg pkg distro arch v) = debArchOf arch \<and>
   debArchOf ''arm'' = ''armhf'' \<and>
   debArchOf ''ppc64le'' = ''ppc64el'' \<and>
   (arch \<noteq> ''arm'' \<and> arch \<noteq> ''ppc64le'' \<longrightarrow> debArchOf arch = arch)"
  by (simp add: jobCfg_def debArchOf_def)

theorem debArch_mapping_witness:
  "''s390x'' \<noteq> ''arm'' \<and> ''s390x'' \<noteq> ''ppc64le'' \<and>
   DebArch (jobCfg ''kubelet'' ''sid'' ''s390x'' (literalSpec ''1.20.0'' :: trace version))
     = ''s390x''"
  using debArch_mapping [of "''kubelet''" "''sid''" "''s390x''"
      "literalSpec ''1.20.0'' :: trace version"]
  by simp

text \<open>
  Claim C9. Whatever the package, the job configuration that the callback of
  \<^verbatim>\<open>main\<close> hands to \<^verbatim>\<open>run\<close> has the kubeadm dependency string in its
  \<^verbatim>\<open>Dependencies\<close> field.
\<close>

theorem dependencies_always_kubeadm:
  "jobCallback e fl pkg distro arch v tr = run e fl (jobCfg pkg distro arch v) tr \<and>
   Dependencies (jobCfg pkg distro arch v) = KubeadmDependencies \<and>
   KubeadmDependencies =
     ''kubelet (>= 1.12.0),kubectl (>= 1.12.0),kubernetes-cni (>= 0.7.5),cri-tools (>= 1.12.0),${misc:Depends}''"
  by (simp add: jobCallback_def jobCfg_def KubeadmDependencies_def
      minimumStableKubernetesVersion_def minimumCNIVersion_def)

theorem dependencies_always_kubeadm_witness:
  "Dependencies (jobCfg ''kubelet'' ''xenial'' ''amd64'' (literalSpec ''1.20.0'' :: trace version))
     = ''kubelet (>= 1.12.0),kubectl (>= 1.12.0),kubernetes-cni (>= 0.7.5),cri-tools (>= 1.12.0),${misc:Depends}''"
  using dependencies_always_kubeadm [of sampleEnv defaultFlags "''kubelet''" "''xenial''"
      "''amd64''" "literalSpec ''1.20.0''" "[]"]
  by simp

section \<open>Properties of the build matrix walker\<close>

text \<open>The four nested loops visit the combinations of \<open>combos\<close>, in that order.\<close>

lemma walkCombos_append:
  "walkCombos f (xs @ ys) s =
     (case walkCombos f xs s of
        (Some err, s') \<Rightarrow> (Some err, s')
      | (None, s') \<Rightarrow> walkCombos f ys s')"
  by (induction xs arbitrary: s) (auto split: prod.splits option.splits)

lemma walkVersions_combos:
  "walkVersions f pkg d a vs s = walkCombos f (map (\<lambda>v. (pkg, d, a, v)) vs) s"
  by (induction vs arbitrary: s) (auto split: prod.splits option.splits)

lemma walkDistros_combos:
  "walkDistros f b a ds s =
     walkCombos f
       (concat (map (\<lambda>d. map (\<lambda>v. (build.Package b, d, a, v)) (Versions b)) ds)) s"
  by (induction ds arbitrary: s)
     (auto simp: walkVersions_combos walkCombos_append split: prod.splits option.splits)

lemma walkPackages_combos:
  "walkPackages f a bs s =
     walkCombos f
       (concat (map (\<lambda>b. concat (map (\<lambda>d. map (\<lambda>v. (build.Package b, d, a, v))
          (Versions b)) (Distros b))) bs)) s"
  by (induction bs arbitrary: s)
     (auto simp: walkDistros_combos walkCombos_append split: prod.splits option.splits)

lemma walkArchitectures_combos:
  "walkArchitectures f builds archs s = walkCombos f (combos archs builds) s"
  by (induction archs arbitrary: s)
     (auto simp: combos_def walkPackages_combos walkCombos_append
        split: prod.splits option.splits)

lemma walkBuilds_combos: "walkBuilds archs builds f s = walkCombos f (combos archs builds) s"
  by (simp add: walkBuilds_def walkArchitectures_combos)

lemma length_combos:
  "length (combos archs builds) =
     length archs * (\<Sum>b\<leftarrow>builds. length (Distros b) * length (Versions b))"
  by (induction archs) (auto simp: combos_def length_concat comp_def sum_list_triv)

lemma combos_all_specs:
  "\<forall>b \<in> set builds. \<forall>v' \<in> set (Versions b). P v' \<Longrightarrow>
   list_all (\<lambda>j. P (snd (snd (snd j)))) (combos archs builds)"
  by (auto simp: combos_def list_all_iff)

text \<open>The loop body fails when a resolver fails or the callback does.\<close>

lemma walkBody_error_iff:
  "walkBody f pkg d a v s1 = (Some err, s2) \<longleftrightarrow>
   (populateVersion v s1 = (Inl err, s2) \<or>
    (\<exists>v1 s'. populateVersion v s1 = (Inr v1, s') \<and>
       (populateDownloadLinkBase v1 s' = (Inl err, s2) \<or>
        (\<exists>v2 s''. populateDownloadLinkBase v1 s' = (Inr v2, s'') \<and>
           f pkg d a v2 s'' = (Some err, s2)))))"
  by (auto simp: walkBody_def split: prod.splits sum.splits)

text \<open>
  Claim C6. Take any matrix and callback, and the first combination, in the order of
  the walk, at which the version resolver, the download link base resolver or the
  callback returns an error \<open>err\<close>, leaving the state \<open>s2\<close>. Then \<^verbatim>\<open>walkBuilds\<close>
  returns \<open>err\<close> with the state \<open>s2\<close>: whatever combinations \<open>post\<close> follow, none of
  their resolvers runs, the callback is not called again, and the one error is the
  result.
\<close>

theorem walkBuilds_stops_at_first_error:
  assumes "combos archs builds = pre @ (pkg, d, a, v) # post"
    and "walkCombos f pre s = (None, s1)"
    and "populateVersion v s1 = (Inl err, s2) \<or>
         (\<exists>v1 s'. populateVersion v s1 = (Inr v1, s') \<and>
            (populateDownloadLinkBase v1 s' = (Inl err, s2) \<or>
             (\<exists>v2 s''. populateDownloadLinkBase v1 s' = (Inr v2, s'') \<and>
                f pkg d a v2 s'' = (Some err, s2))))"
  shows "walkBuilds archs builds f s = (Some err, s2)"
proof -
  from assms(3) have "walkBody f pkg d a v s1 = (Some err, s2)"
    by (simp only: walkBody_error_iff)
  with assms(1,2) show ?thesis
    by (simp add: walkBuilds_combos walkCombos_append)
qed

lemmas walk_eval_defs = walkBody_def populateVersion_def populateDownloadLinkBase_def
  literalSpec_def stableSpec_def noopCallback_def getStableKubeVersion_def
  fetchVersionFromURL_def getReleaseDownloadLinkBase_def Let_def

theorem walkBuilds_stops_at_first_error_witness:
  "walkBuilds [''amd64'', ''arm''] (sampleBuilds httpFailsEnv) noopCallback [] =
     (Some (NetworkError ''connection refused''),
      [HttpGet ''https://dl.k8s.io/release/stable.txt'' (GetError ''connection refused'')])"
proof -
  have 1: "combos [''amd64'', ''arm''] (sampleBuilds httpFailsEnv) =
      [(''kubernetes-cni'', ''xenial'', ''amd64'', literalSpec minimumCNIVersion)] @
      (''kubectl'', ''xenial'', ''amd64'', stableSpec httpFailsEnv) #
      [(''kubernetes-cni'', ''xenial'', ''arm'', literalSpec minimumCNIVersion),
       (''kubectl'', ''xenial'', ''arm'', stableSpec httpFailsEnv)]"
    by (simp add: combos_def sampleBuilds_def)
  have 2: "walkCombos noopCallback
      [(''kubernetes-cni'', ''xenial'', ''amd64'', literalSpec minimumCNIVersion)] [] =
      (None, [])"
    by (simp add: walk_eval_defs minimumCNIVersion_def)
  have 3: "populateVersion (stableSpec httpFailsEnv) [] =
      (Inl (NetworkError ''connection refused''),
       [HttpGet ''https://dl.k8s.io/release/stable.txt'' (GetError ''connection refused'')])"
    by (simp add: walk_eval_defs httpFailsEnv_def sampleEnv_def)
  show ?thesis
    by (rule walkBuilds_stops_at_first_error [OF 1 2 disjI1 [OF 3]])
qed

text \<open>
  Claim C1, as the code has it. The walker resolves a spec on the copy it makes of
  it for one job and never writes the result back. So in any matrix, at every job
  that the walk reaches without an error (the jobs \<open>pre\<close> before it have
  succeeded and left the state \<open>s1\<close>) and that is built from a spec \<open>v\<close> with an
  empty version and a resolver \<open>g\<close>, the walk runs \<open>g\<close> on the state of that
  moment, whether or not an earlier job was built from the same spec; the version
  that the rest of the job sees is the one this run of \<open>g\<close> returns. The same holds
  for the download link base and its resolver \<open>h\<close>, which is run on the spec with
  the version just resolved.
\<close>

theorem walkBuilds_resolves_for_every_job:
  assumes "combos archs builds = pre @ (pkg, d, a, v) # post"
    and "walkCombos f pre s = (None, s1)"
  shows "(Version v = [] \<and> GetVersion v = Some g \<longrightarrow>
            walkBuilds archs builds f s =
              (case g s1 of
                 (Inl err, s2) \<Rightarrow> (Some err, s2)
               | (Inr x, s2) \<Rightarrow>
                   (case populateDownloadLinkBase (v\<lparr>Version := x\<rparr>) s2 of
                      (Inl err, s3) \<Rightarrow> (Some err, s3)
                    | (Inr v2, s3) \<Rightarrow>
                        (case f pkg d a v2 s3 of
                           (Some err, s4) \<Rightarrow> (Some err, s4)
                         | (None, s4) \<Rightarrow> walkCombos f post s4)))) \<and>
         (DownloadLinkBase v = [] \<and> GetDownloadLinkBase v = Some h \<longrightarrow>
            (\<forall>x s2. populateDownloadLinkBase (v\<lparr>Version := x\<rparr>) s2 =
               (case h (versionData.truncate (v\<lparr>Version := x\<rparr>)) s2 of
                  (Inl err, s3) \<Rightarrow> (Inl err, s3)
                | (Inr y, s3) \<Rightarrow> (Inr (v\<lparr>Version := x, DownloadLinkBase := y\<rparr>), s3))))"
proof -
  have walk: "walkBuilds archs builds f s =
      (case walkBody f pkg d a v s1 of
         (Some err, s') \<Rightarrow> (Some err, s')
       | (None, s') \<Rightarrow> walkCombos f post s')"
    using assms by (simp add: walkBuilds_combos walkCombos_append)
  have 1: "walkBuilds archs builds f s =
              (case g s1 of
                 (Inl err, s2) \<Rightarrow> (Some err, s2)
               | (Inr x, s2) \<Rightarrow>
                   (case populateDownloadLinkBase (v\<lparr>Version := x\<rparr>) s2 of
                      (Inl err, s3) \<Rightarrow> (Some err, s3)
                    | (Inr v2, s3) \<Rightarrow>
                        (case f pkg d a v2 s3 of
                           (Some err, s4) \<Rightarrow> (Some err, s4)
                         | (None, s4) \<Rightarrow> walkCombos f post s4)))"
    if "Version v = []" "GetVersion v = Some g"
    unfolding walk using that
    by (simp add: walkBody_def populateVersion_def split: prod.splits sum.splits)
  have 2: "populateDownloadLinkBase (v\<lparr>Version := x\<rparr>) s2 =
               (case h (versionData.truncate (v\<lparr>Version := x\<rparr>)) s2 of
                  (Inl err, s3) \<Rightarrow> (Inl err, s3)
                | (Inr y, s3) \<Rightarrow> (Inr (v\<lparr>Version := x, DownloadLinkBase := y\<rparr>), s3))"
    if "DownloadLinkBase v = []" "GetDownloadLinkBase v = Some h" for x s2
    using that by (simp add: populateDownloadLinkBase_def split: prod.splits sum.splits)
  from 1 2 show ?thesis by blast
qed

theorem walkBuilds_resolves_for_every_job_witness:
  "walkBuilds [''amd64'', ''arm''] (sampleBuilds sampleEnv) noopCallback [] =
     (None,
      [HttpGet ''https://dl.k8s.io/release/stable.txt'' (Body ''v1.20.0\<newline>''),
       HttpGet ''https://dl.k8s.io/release/stable.txt'' (Body ''v1.20.0\<newline>'')])"
proof -
  let ?fetch = "HttpGet ''https://dl.k8s.io/release/stable.txt'' (Body ''v1.20.0\<newline>'')"
  have 1: "combos [''amd64'', ''arm''] (sampleBuilds sampleEnv) =
      [(''kubernetes-cni'', ''xenial'', ''amd64'', literalSpec minimumCNIVersion),
       (''kubectl'', ''xenial'', ''amd64'', stableSpec sampleEnv),
       (''kubernetes-cni'', ''xenial'', ''arm'', literalSpec minimumCNIVersion)] @
      (''kubectl'', ''xenial'', ''arm'', stableSpec sampleEnv) # []"
    by (simp add: combos_def sampleBuilds_def)
  have 2: "walkCombos noopCallback
      [(''kubernetes-cni'', ''xenial'', ''amd64'', literalSpec minimumCNIVersion),
       (''kubectl'', ''xenial'', ''amd64'', stableSpec sampleEnv),
       (''kubernetes-cni'', ''xenial'', ''arm'', literalSpec minimumCNIVersion)] [] =
      (None, [?fetch])"
    by (simp add: walk_eval_defs minimumCNIVersion_def sampleEnv_def LF_def cleanVersion_def)
  have 3: "Version (stableSpec sampleEnv) = [] \<and>
      GetVersion (stableSpec sampleEnv) = Some (getStableKubeVersion sampleEnv)"
    by (simp add: stableSpec_def)
  have 4: "getStableKubeVersion sampleEnv [?fetch] = (Inr ''1.20.0'', [?fetch, ?fetch])"
    by (simp add: getStableKubeVersion_def fetchVersionFromURL_def sampleEnv_def LF_def
        cleanVersion_def Let_def)
  from walkBuilds_resolves_for_every_job [OF 1 2, of "getStableKubeVersion sampleEnv"] 3
  have "walkBuilds [''amd64'', ''arm''] (sampleBuilds sampleEnv) noopCallback [] =
      (case getStableKubeVersion sampleEnv [?fetch] of
         (Inl err, s2) \<Rightarrow> (Some err, s2)
       | (Inr x, s2) \<Rightarrow>
           (case populateDownloadLinkBase (stableSpec sampleEnv\<lparr>Version := x\<rparr>) s2 of
              (Inl err, s3) \<Rightarrow> (Some err, s3)
            | (Inr v2, s3) \<Rightarrow>
                (case noopCallback ''kubectl'' ''xenial'' ''arm'' v2 s3 of
                   (Some err, s4) \<Rightarrow> (Some err, s4)
                 | (None, s4) \<Rightarrow> walkCombos noopCallback [] s4)))"
    by blast
  then show ?thesis
    by (simp add: 4 populateDownloadLinkBase_def stableSpec_def noopCallback_def
        getReleaseDownloadLinkBase_def)
qed

text \<open>
  Claim C1 as written fails: one spec, two jobs built from it in one run, and the
  version manifest is fetched twice.
\<close>

theorem resolver_runs_again_counterexample:
  "walkBuilds [''amd64'', ''arm'']
     [\<lparr>build.Package = ''kubectl'', Distros = [''xenial''],
        Versions = [stableSpec sampleEnv]\<rparr>] noopCallback [] =
   (None,
    [HttpGet ''https://dl.k8s.io/release/stable.txt'' (Body ''v1.20.0\<newline>''),
     HttpGet ''https://dl.k8s.io/release/stable.txt'' (Body ''v1.20.0\<newline>'')])"
  by (simp add: walkBuilds_def walk_eval_defs sampleEnv_def LF_def cleanVersion_def)

section \<open>Properties of the build matrix\<close>

text \<open>Resolving a spec leaves its channel alone, so the callback sees the channel of the matrix.\<close>

lemma populate_keeps_channel:
  "populateVersion v s = (Inr v1, s1) \<Longrightarrow> Channel v1 = Channel v"
  "populateDownloadLinkBase v s = (Inr v1, s1) \<Longrightarrow> Channel v1 = Channel v"
  by (auto simp: populateVersion_def populateDownloadLinkBase_def
        split: if_splits prod.splits sum.splits)

lemma walkBody_channel:
  "Channel v = ch \<Longrightarrow>
   walkBody (\<lambda>pkg d a v. if Channel v = ch then f pkg d a v else g pkg d a v) pkg d a v s =
   walkBody f pkg d a v s"
  by (auto simp: walkBody_def populate_keeps_channel split: prod.splits sum.splits)

lemma walkCombos_channel:
  "list_all (\<lambda>j. Channel (snd (snd (snd j))) = ch) js \<Longrightarrow>
   walkCombos (\<lambda>pkg d a v. if Channel v = ch then f pkg d a v else g pkg d a v) js s =
   walkCombos f js s"
  by (induction js arbitrary: s) (auto simp: walkBody_channel split: prod.splits option.splits)

text \<open>
  Claim C8. With a version pin, the matrix of \<^verbatim>\<open>main\<close> has the five packages, each
  with exactly one spec, and every spec is on the stable channel. The walk then calls
  the callback on stable specs only: a callback that does something else, \<open>g\<close>, on
  every other channel gives the same run.
\<close>

theorem pinned_matrix_is_stable_only:
  assumes "kubeVersion fl \<noteq> []"
  shows "map build.Package (mainBuilds e fl) =
           [''kubectl'', ''kubelet'', ''kubernetes-cni'', ''kubeadm'', ''cri-tools''] \<and>
         (\<forall>b \<in> set (mainBuilds e fl).
            length (Versions b) = 1 \<and> (\<forall>v \<in> set (Versions b). Channel v = ChannelStable)) \<and>
         walkBuilds (architectures fl) (mainBuilds e fl)
            (\<lambda>pkg d a v. if Channel v = ChannelStable then f pkg d a v else g pkg d a v) tr =
         walkBuilds (architectures fl) (mainBuilds e fl) f tr"
proof -
  have 1: "\<forall>b \<in> set (mainBuilds e fl).
            length (Versions b) = 1 \<and> (\<forall>v \<in> set (Versions b). Channel v = ChannelStable)"
    using assms by (simp add: mainBuilds_def pinnedBuilds_def)
  then have "\<forall>b \<in> set (mainBuilds e fl). \<forall>v \<in> set (Versions b). Channel v = ChannelStable"
    by blast
  from combos_all_specs [of "mainBuilds e fl" "\<lambda>v. Channel v = ChannelStable", OF this]
  have 2: "list_all (\<lambda>j. Channel (snd (snd (snd j))) = ChannelStable)
             (combos (architectures fl) (mainBuilds e fl))" .
  have 3: "map build.Package (mainBuilds e fl) =
           [''kubectl'', ''kubelet'', ''kubernetes-cni'', ''kubeadm'', ''cri-tools'']"
    using assms by (simp add: mainBuilds_def pinnedBuilds_def)
  show ?thesis using 1 3 walkCombos_channel [OF 2] by (simp only: walkBuilds_combos)
qed

theorem pinned_matrix_is_stable_only_witness:
  "kubeVersion pinnedFlags \<noteq> [] \<and>
   map build.Package (mainBuilds sampleEnv pinnedFlags) =
     [''kubectl'', ''kubelet'', ''kubernetes-cni'', ''kubeadm'', ''cri-tools''] \<and>
   map (\<lambda>b. map Channel (Versions b)) (mainBuilds sampleEnv pinnedFlags) =
     [[''stable''], [''stable''], [''stable''], [''stable''], [''stable'']]"
proof -
  have pin: "kubeVersion pinnedFlags \<noteq> []"
    by (simp add: pinnedFlags_def)
  have "list_all (\<lambda>b. length (Versions b) = 1 \<and> list_all (\<lambda>v. Channel v = ''stable'') (Versions b))
          (mainBuilds sampleEnv pinnedFlags)"
    using pinned_matrix_is_stable_only [OF pin, of sampleEnv]
    by (simp add: list_all_iff ChannelStable_def)
  moreover have "length (mainBuilds sampleEnv pinnedFlags) = 5"
    using pin by (simp add: mainBuilds_def pinnedBuilds_def)
  ultimately have "map (\<lambda>b. map Channel (Versions b)) (mainBuilds sampleEnv pinnedFlags) =
     [[''stable''], [''stable''], [''stable''], [''stable''], [''stable'']]"
    by (auto simp: length_Suc_conv numeral_eq_Suc list_all_iff)
  with pin pinned_matrix_is_stable_only [OF pin, of sampleEnv] show ?thesis by simp
qed

text \<open>
  Claim C10. With a version pin, every spec of the matrix belongs to one of the five
  packages, and resolving its version does this: for kubectl, kubelet and kubeadm it
  gives the pinned version and touches nothing; for kubernetes-cni the version is the
  literal 0.7.5 and nothing is resolved; for cri-tools the resolver is
  \<^verbatim>\<open>getCRIToolsLatestVersion\<close>, which fetches the stable version manifest.
\<close>

theorem pinned_version_scope:
  assumes "kubeVersion fl \<noteq> []" and "b \<in> set (mainBuilds e fl)" and "v \<in> set (Versions b)"
  shows "build.Package b \<in>
           {''kubectl'', ''kubelet'', ''kubernetes-cni'', ''kubeadm'', ''cri-tools''} \<and>
    (build.Package b \<in> {''kubectl'', ''kubelet'', ''kubeadm''} \<longrightarrow>
       populateVersion v tr = (Inr (v\<lparr>Version := kubeVersion fl\<rparr>), tr)) \<and>
    (build.Package b = ''kubernetes-cni'' \<longrightarrow>
       Version v = ''0.7.5'' \<and> populateVersion v tr = (Inr v, tr)) \<and>
    (build.Package b = ''cri-tools'' \<longrightarrow>
       GetVersion v = Some (getCRIToolsLatestVersion e) \<and>
       snd (populateVersion v tr) =
         tr @ [HttpGet ''https://dl.k8s.io/release/stable.txt''
                 (httpGet e tr ''https://dl.k8s.io/release/stable.txt'')])"
proof -
  have cri: "snd (getCRIToolsLatestVersion e tr) =
         tr @ [HttpGet ''https://dl.k8s.io/release/stable.txt''
                 (httpGet e tr ''https://dl.k8s.io/release/stable.txt'')]"
    by (auto simp: getCRIToolsLatestVersion_def getStableKubeVersion_def fetchVersionFromURL_def
        Let_def split: httpResult.splits sum.splits prod.splits)
  have snd_case: "\<And>(p :: (error + string) \<times> trace) F.
      snd (case p of (Inl err, s') \<Rightarrow> (Inl err, s') | (Inr x, s') \<Rightarrow> (Inr (F x), s')) = snd p"
    by (auto split: prod.splits sum.splits)
  from assms show ?thesis
    unfolding mainBuilds_def pinnedBuilds_def
    by (auto simp: populateVersion_def getSpecifiedVersion_def minimumCNIVersion_def
        snd_case cri)
qed

theorem pinned_version_scope_witness:
  "kubeVersion pinnedFlags \<noteq> [] \<and>
   mainBuilds sampleEnv pinnedFlags ! 4 \<in> set (mainBuilds sampleEnv pinnedFlags) \<and>
   hd (Versions (mainBuilds sampleEnv pinnedFlags ! 4)) \<in>
     set (Versions (mainBuilds sampleEnv pinnedFlags ! 4)) \<and>
   build.Package (mainBuilds sampleEnv pinnedFlags ! 4) = ''cri-tools'' \<and>
   snd (populateVersion (hd (Versions (mainBuilds sampleEnv pinnedFlags ! 4))) []) =
     [HttpGet ''https://dl.k8s.io/release/stable.txt'' (Body ''v1.20.0\<newline>'')]"
proof -
  have pin: "kubeVersion pinnedFlags \<noteq> []"
    by (simp add: pinnedFlags_def)
  have b: "mainBuilds sampleEnv pinnedFlags ! 4 \<in> set (mainBuilds sampleEnv pinnedFlags)"
    using pin by (simp add: mainBuilds_def pinnedBuilds_def)
  have v: "hd (Versions (mainBuilds sampleEnv pinnedFlags ! 4)) \<in>
     set (Versions (mainBuilds sampleEnv pinnedFlags ! 4))"
    using pin by (simp add: mainBuilds_def pinnedBuilds_def)
  have p: "build.Package (mainBuilds sampleEnv pinnedFlags ! 4) = ''cri-tools''"
    using pin by (simp add: mainBuilds_def pinnedBuilds_def)
  have h: "httpGet sampleEnv [] ''https://dl.k8s.io/release/stable.txt'' = Body ''v1.20.0\<newline>''"
    by (simp add: sampleEnv_def LF_def)
  from pinned_version_scope [OF pin b v, of "[]"] p h pin b v show ?thesis
    by simp
qed

section \<open>Properties of rendering, packaging and placement\<close>

subsection \<open>The events of the directory walk\<close>

lemma walkFn_trace:
  assumes "walkFn e dstdir realSrcdir entry w tr = (r, tr')" and "list_all workOk w"
  shows "\<exists>evs. tr' = tr @ evs \<and> list_all isWalkEvent evs \<and>
           (\<forall>w'. r = Inr w' \<longrightarrow> list_all workOk w')"
  using assms
  by (cases entry)
     (auto simp: walkFn_def os_Mkdir_def template_ParseFiles_def Let_def workOk_def
       split: option.splits if_splits prod.splits sum.splits)

lemma walkLoop_trace:
  assumes "walkLoop e dstdir realSrcdir entries w tr = (r, tr')" and "list_all workOk w"
  shows "\<exists>evs. tr' = tr @ evs \<and> list_all isWalkEvent evs \<and>
           (\<forall>w'. r = Inr w' \<longrightarrow> list_all workOk w')"
  using assms
proof (induction entries arbitrary: w tr)
  case Nil
  then show ?case by auto
next
  case (Cons entry entries)
  obtain r1 tr1 where 1: "walkFn e dstdir realSrcdir entry w tr = (r1, tr1)"
    by (cases "walkFn e dstdir realSrcdir entry w tr")
  from walkFn_trace [OF 1 Cons.prems(2)] obtain evs1 where
    2: "tr1 = tr @ evs1" "list_all isWalkEvent evs1" "\<forall>w'. r1 = Inr w' \<longrightarrow> list_all workOk w'"
    by blast
  show ?case
  proof (cases r1)
    case (Inl err)
    with 1 2 Cons.prems(1) show ?thesis by auto
  next
    case (Inr w1)
    with 1 Cons.prems(1) have 3: "walkLoop e dstdir realSrcdir entries w1 tr1 = (r, tr')"
      by simp
    from 2 Inr have "list_all workOk w1" by simp
    from Cons.IH [OF 3 this] obtain evs2 where
      "tr' = tr1 @ evs2" "list_all isWalkEvent evs2" "\<forall>w'. r = Inr w' \<longrightarrow> list_all workOk w'"
      by blast
    with 2 show ?thesis by auto
  qed
qed

lemma filepath_Walk_trace:
  assumes "filepath_Walk e dstdir realSrcdir tr = (r, tr')"
  shows "\<exists>evs. tr' = tr @ evs \<and> list_all isWalkEvent evs \<and>
           (\<forall>w'. r = Inr w' \<longrightarrow> list_all workOk w')"
proof -
  from assms have "walkLoop e dstdir realSrcdir (walkEntries e tr realSrcdir) []
      (tr @ [WalkDir realSrcdir]) = (r, tr')"
    by (simp add: filepath_Walk_def)
  from walkLoop_trace [OF this] obtain evs where
    "tr' = (tr @ [WalkDir realSrcdir]) @ evs" "list_all isWalkEvent evs"
    "\<forall>w'. r = Inr w' \<longrightarrow> list_all workOk w'"
    by auto
  then show ?thesis by auto
qed

subsection \<open>The events of the rendering loop\<close>

text \<open>A name that is not a field of \<^verbatim>\<open>cfg\<close> has no text in the context of any job.\<close>

lemma cfgField_absent: "name \<notin> set cfgFieldNames \<Longrightarrow> cfgField c name = None"
  by (simp add: cfgFieldNames_def cfgField_def)

text \<open>Rendering fails when the template refers to a field that is absent.\<close>

lemma renderNodes_absent:
  "list_ex refsAbsent body \<Longrightarrow>
   snd (renderNodes e tr path (cfgField c) funcs body out) \<noteq> None"
proof (induction body arbitrary: out)
  case Nil
  then show ?case by simp
next
  case (Cons n ns)
  show ?case
  proof (cases "refsAbsent n")
    case True
    then obtain name where "n = Field name" "name \<notin> set cfgFieldNames"
      by (cases n) auto
    then show ?thesis by (simp add: cfgField_absent)
  next
    case False
    with Cons.prems have "list_ex refsAbsent ns" by simp
    from Cons.IH [OF this] show ?thesis
      by (auto split: sum.splits option.splits)
  qed
qed

lemma template_Execute_trace:
  assumes "template_Execute e tp path c tr = (r, tr')"
  shows "\<exists>out x. tr' = tr @ [Execute path tp out x] \<and> r = map_option TemplateError x \<and>
           (list_ex refsAbsent (tmplBody tp) \<longrightarrow> x \<noteq> None)"
proof -
  obtain out x where 1:
    "renderNodes e tr path (cfgField c) (tmplFuncs tp) (tmplBody tp) [] = (out, x)"
    by (cases "renderNodes e tr path (cfgField c) (tmplFuncs tp) (tmplBody tp) []")
  have "list_ex refsAbsent (tmplBody tp) \<longrightarrow> x \<noteq> None"
    using renderNodes_absent [of "tmplBody tp" e tr path c "tmplFuncs tp" "[]"] 1 by simp
  with assms 1 show ?thesis by (auto simp: template_Execute_def)
qed

lemma renderWork_trace:
  assumes "renderWork e c w tr = (r, tr')" and "workOk w"
  shows "\<exists>evs. tr' = tr @ evs \<and> list_all isRenderEvent evs \<and> list_all execSound evs \<and>
           (\<forall>ev \<in> set evs. \<forall>m. execFailure ev = Some m \<longrightarrow> r = Some (TemplateError m))"
proof (cases "openFile e tr (dst w)")
  case (Some m)
  with assms(1) show ?thesis
    by (auto simp: renderWork_def os_OpenFile_def Let_def execFailure_def execSound_def)
next
  case None
  let ?tr1 = "tr @ [OpenFile (dst w) None]"
  obtain r2 tr2 where 2: "template_Execute e (tmpl w) (dst w) c ?tr1 = (r2, tr2)"
    by (cases "template_Execute e (tmpl w) (dst w) c ?tr1")
  from template_Execute_trace [OF 2] obtain out x where
    3: "tr2 = ?tr1 @ [Execute (dst w) (tmpl w) out x]" "r2 = map_option TemplateError x"
       "list_ex refsAbsent (tmplBody (tmpl w)) \<longrightarrow> x \<noteq> None"
    by blast
  show ?thesis
  proof (cases x)
    case (Some m)
    with assms None 2 3 show ?thesis
      by (auto simp: renderWork_def os_OpenFile_def Let_def execFailure_def execSound_def
          workOk_def)
  next
    case x: None
    with assms None 2 3 show ?thesis
      by (auto simp: renderWork_def os_OpenFile_def os_Chmod_def Let_def execFailure_def
          execSound_def workOk_def)
  qed
qed

lemma renderLoop_trace:
  assumes "renderLoop e c ws tr = (r, tr')" and "list_all workOk ws"
  shows "\<exists>evs. tr' = tr @ evs \<and> list_all isRenderEvent evs \<and> list_all execSound evs \<and>
           (\<forall>ev \<in> set evs. \<forall>m. execFailure ev = Some m \<longrightarrow> r = Some (TemplateError m))"
  using assms
proof (induction ws arbitrary: tr)
  case Nil
  then show ?case by auto
next
  case (Cons w ws)
  obtain r1 tr1 where 1: "renderWork e c w tr = (r1, tr1)"
    by (cases "renderWork e c w tr")
  from Cons.prems(2) have "workOk w" by simp
  from renderWork_trace [OF 1 this] obtain evs1 where
    2: "tr1 = tr @ evs1" "list_all isRenderEvent evs1" "list_all execSound evs1"
       "\<forall>ev \<in> set evs1. \<forall>m. execFailure ev = Some m \<longrightarrow> r1 = Some (TemplateError m)"
    by blast
  show ?case
  proof (cases r1)
    case (Some err)
    with 1 2 Cons.prems(1) show ?thesis by auto
  next
    case None
    with 1 Cons.prems(1) have 3: "renderLoop e c ws tr1 = (r, tr')"
      by simp
    from Cons.prems(2) have "list_all workOk ws" by simp
    from Cons.IH [OF 3 this] obtain evs2 where
      4: "tr' = tr1 @ evs2" "list_all isRenderEvent evs2" "list_all execSound evs2"
      "\<forall>ev \<in> set evs2. \<forall>m. execFailure ev = Some m \<longrightarrow> r = Some (TemplateError m)"
      by blast
    from 2(4) None have "\<forall>ev \<in> set evs1. execFailure ev = None"
      by (metis not_Some_eq option.distinct(1))
    with 2 4 show ?thesis by auto
  qed
qed

subsection \<open>The events of a job\<close>

lemma walkEvent_no_execFailure: "isWalkEvent ev \<Longrightarrow> execFailure ev = None"
  by (cases ev) (simp_all add: execFailure_def)

lemma walkEvent_execSound: "list_all isWalkEvent evs \<Longrightarrow> list_all execSound evs"
  by (induction evs) (auto simp: execSound_def elim: isWalkEvent.elims)

lemma staging_mono:
  "list_all isWalkEvent evs \<Longrightarrow> list_all isStagingEvent evs"
  "list_all isRenderEvent evs \<Longrightarrow> list_all isStagingEvent evs"
  by (induction evs) (auto elim: isWalkEvent.elims isRenderEvent.elims)

lemma staging_not_placement:
  "isStagingEvent ev \<Longrightarrow>
   \<not> isRunCommand ev \<and> \<not> isMkdirAll ev \<and> \<not> isMove ev \<and> missingKeyIsError ev"
  by (cases ev) simp_all

lemma staging_all:
  "list_all isStagingEvent evs \<Longrightarrow>
   list_all (\<lambda>ev. \<not> isRunCommand ev \<and> \<not> isMkdirAll ev \<and> \<not> isMove ev \<and>
                 missingKeyIsError ev) evs"
  by (induction evs) (simp_all add: staging_not_placement)

lemma placementTailE:
  assumes "placementTail dstdir r rest"
  obtains (none) "rest = []"
  | (failed) cmdArgs m where
      "rest = [RunCommand dstdir ''dpkg-buildpackage'' cmdArgs (Some m)]"
      "r = Some (ProcessError m)"
  | (placed) cmdArgs path x mvArgs y where
      "rest = [RunCommand dstdir ''dpkg-buildpackage'' cmdArgs None, MkdirAll path 511 x,
               RunCommand [] ''mv'' mvArgs y]"
      "r = map_option ProcessError y"
  using assms unfolding placementTail_def by blast

lemma placementTail_events:
  assumes "placementTail dstdir r rest"
  shows "list_all (\<lambda>ev. missingKeyIsError ev \<and> execFailure ev = None) rest"
  using assms by (cases rule: placementTailE) (simp_all add: execFailure_def)

text \<open>
  The events that \<^verbatim>\<open>run\<close> adds once the staging directory exists: staging events,
  then the packaging and placement steps.
\<close>

lemma runStaged_shapeI:
  "tr' = tr @ evs @ rest \<Longrightarrow> list_all isStagingEvent evs \<Longrightarrow> list_all execSound evs \<Longrightarrow>
   placementTail dstdir r rest \<Longrightarrow>
   (\<forall>ev \<in> set evs. \<forall>m. execFailure ev = Some m \<longrightarrow>
      r = Some (TemplateError m) \<and> rest = []) \<Longrightarrow>
   \<exists>evs rest. tr' = tr @ evs @ rest \<and> list_all isStagingEvent evs \<and>
      list_all execSound evs \<and> placementTail dstdir r rest \<and>
      (\<forall>ev \<in> set evs. \<forall>m. execFailure ev = Some m \<longrightarrow>
         r = Some (TemplateError m) \<and> rest = [])"
  by blast

lemma runStaged_trace:
  assumes "runStaged e c srcdir dstdir tr = (r, tr')"
  shows "\<exists>evs rest. tr' = tr @ evs @ rest \<and> list_all isStagingEvent evs \<and>
           list_all execSound evs \<and> placementTail dstdir r rest \<and>
           (\<forall>ev \<in> set evs. \<forall>m. execFailure ev = Some m \<longrightarrow>
              r = Some (TemplateError m) \<and> rest = [])"
proof -
  obtain r1 tr1 where 1: "filepath_EvalSymlinks e srcdir tr = (r1, tr1)"
    by (cases "filepath_EvalSymlinks e srcdir tr")
  then have tr1: "tr1 = tr @ [EvalSymlinks srcdir (evalSymlinks e tr srcdir)]"
    by (auto simp: filepath_EvalSymlinks_def Let_def)
  have es: "execSound (EvalSymlinks srcdir (evalSymlinks e tr srcdir))"
    by (simp add: execSound_def)
  show ?thesis
  proof (cases r1)
    case (Inl err)
    with assms 1 tr1
    have eq: "tr' = tr @ [EvalSymlinks srcdir (evalSymlinks e tr srcdir)] @ []"
      by (simp add: runStaged_def)
    show ?thesis
      by (rule runStaged_shapeI [OF eq])
         (simp_all add: placementTail_def execFailure_def execSound_def)
  next
    case (Inr realSrcdir)
    obtain r2 tr2 where 2: "filepath_Walk e dstdir realSrcdir tr1 = (r2, tr2)"
      by (cases "filepath_Walk e dstdir realSrcdir tr1")
    from filepath_Walk_trace [OF 2] obtain evs2 where
      e2: "tr2 = tr1 @ evs2" "list_all isWalkEvent evs2"
          "\<forall>w'. r2 = Inr w' \<longrightarrow> list_all workOk w'"
      by blast
    have nf2: "\<forall>ev \<in> set evs2. execFailure ev = None"
      using e2(2) by (simp add: list_all_iff walkEvent_no_execFailure)
    note s2 = walkEvent_execSound [OF e2(2)]
    show ?thesis
    proof (cases r2)
      case (Inl err)
      with assms 1 2 Inr tr1 e2
      have eq: "tr' = tr @ (EvalSymlinks srcdir (evalSymlinks e tr srcdir) # evs2) @ []"
        by (simp add: runStaged_def)
      show ?thesis
        by (rule runStaged_shapeI [OF eq])
           (use e2(2) nf2 s2 es in
             \<open>simp_all add: placementTail_def execFailure_def staging_mono\<close>)
    next
      case w: (Inr w)
      obtain r3 tr3 where 3: "renderLoop e c w tr2 = (r3, tr3)"
        by (cases "renderLoop e c w tr2")
      from e2(3) w have "list_all workOk w" by simp
      from renderLoop_trace [OF 3 this] obtain evs3 where
        e3: "tr3 = tr2 @ evs3" "list_all isRenderEvent evs3" "list_all execSound evs3"
        "\<forall>ev \<in> set evs3. \<forall>m. execFailure ev = Some m \<longrightarrow> r3 = Some (TemplateError m)"
        by blast
      let ?evs = "EvalSymlinks srcdir (evalSymlinks e tr srcdir) # evs2 @ evs3"
      have st: "list_all isStagingEvent ?evs"
        using e2(2) e3(2) by (simp add: staging_mono)
      have so: "list_all execSound ?evs"
        using s2 e3(3) es by simp
      have tr3: "tr3 = tr @ ?evs" using tr1 e2(1) e3(1) by simp
      show ?thesis
      proof (cases r3)
        case (Some err)
        with assms 1 2 3 Inr w have eq: "tr' = tr @ ?evs @ []" and r: "r = r3"
          using tr3 by (simp_all add: runStaged_def)
        show ?thesis
          by (rule runStaged_shapeI [OF eq st so])
             (use nf2 e3(4) r in \<open>auto simp: placementTail_def execFailure_def\<close>)
      next
        case None
        with e3(4) have nf3: "\<forall>ev \<in> set evs3. execFailure ev = None"
          by (metis not_Some_eq option.distinct(1))
        have nf: "\<forall>ev \<in> set ?evs. execFailure ev = None"
          using nf2 nf3 by (auto simp: execFailure_def)
        from assms 1 2 3 Inr w None obtain rest where
          "tr' = tr3 @ rest" "placementTail dstdir r rest"
          by (auto simp: runStaged_def runCommand_def os_MkdirAll_def Let_def placementTail_def
              split: option.splits prod.splits)
        with tr3 have eq: "tr' = tr @ ?evs @ rest" and pt: "placementTail dstdir r rest"
          by simp_all
        show ?thesis
          by (rule runStaged_shapeI [OF eq st so pt]) (use nf in simp_all)
      qed
    qed
  qed
qed

text \<open>The events of one \<^verbatim>\<open>run\<close>: either no staging directory, or the shape above.\<close>

lemma run_cases:
  assumes "run e fl c tr = (r, tr')"
  obtains (tmp) m where "emitted tr tr' = [TempDir (Inl m)]" "r = Some (FilesystemError m)"
  | (staged) dstdir evs rest cl where
      "emitted tr tr' = TempDir (Inr dstdir) # evs @ rest @ cl"
      "list_all isStagingEvent evs" "placementTail dstdir r rest"
      "cl = [] \<or> cl = [RemoveAll dstdir]"
      "\<forall>ev \<in> set evs. \<forall>m. execFailure ev = Some m \<longrightarrow>
         r = Some (TemplateError m) \<and> rest = []"
      "list_all execSound evs"
proof (cases "osTempDir e tr")
  case (Inl m)
  with assms have "emitted tr tr' = [TempDir (Inl m)]" "r = Some (FilesystemError m)"
    by (auto simp: run_def ioutil_TempDir_def Let_def emitted_def)
  then show thesis by (rule tmp)
next
  case (Inr dstdir)
  let ?tr1 = "tr @ [TempDir (Inr dstdir)]"
  obtain r2 tr2 where 2:
    "runStaged e c (pathJoin e [DistroName c, cfg.Package c]) dstdir ?tr1 = (r2, tr2)"
    by (cases "runStaged e c (pathJoin e [DistroName c, cfg.Package c]) dstdir ?tr1")
  from runStaged_trace [OF 2] obtain evs rest where
    3: "tr2 = ?tr1 @ evs @ rest" "list_all isStagingEvent evs" "placementTail dstdir r2 rest"
       "\<forall>ev \<in> set evs. \<forall>m. execFailure ev = Some m \<longrightarrow>
          r2 = Some (TemplateError m) \<and> rest = []"
       "list_all execSound evs"
    by blast
  from assms Inr 2 have r: "r = r2"
    and tr': "tr' = (if keepTmp fl then tr2 else tr2 @ [RemoveAll dstdir])"
    by (simp_all add: run_def ioutil_TempDir_def Let_def)
  define cl where "cl = (if keepTmp fl then [] else [RemoveAll dstdir])"
  have eq: "emitted tr tr' = TempDir (Inr dstdir) # evs @ rest @ cl"
    using tr' 3(1) by (simp add: emitted_def cl_def)
  have cl: "cl = [] \<or> cl = [RemoveAll dstdir]" by (simp add: cl_def)
  show thesis
    by (rule staged [OF eq 3(2) _ cl _ 3(5)]) (use 3(3,4) r in simp_all)
qed

text \<open>Evaluating \<^verbatim>\<open>run\<close> in the sample environments.\<close>

lemmas run_eval_defs = run_def runStaged_def sampleEnv_def defaultFlags_def sampleCfg_def
  jobCfg_def literalSpec_def debArchOf_def KubeadmDependencies_def ioutil_TempDir_def
  filepath_EvalSymlinks_def filepath_Walk_def walkFn_def os_Mkdir_def template_ParseFiles_def
  builtins_def renderWork_def os_OpenFile_def template_Execute_def os_Chmod_def runCommand_def
  os_MkdirAll_def sampleJoin_def ChannelStable_def cfgField_def Let_def

lemma run_dpkgFailsEnv:
  "run dpkgFailsEnv defaultFlags sampleCfg [] =
     (Some (ProcessError ''exit status 2''),
      [TempDir (Inr ''/tmp/debs1''),
       EvalSymlinks ''xenial/kubectl'' (Inr ''xenial/kubectl''),
       WalkDir ''xenial/kubectl'',
       Mkdir ''/tmp/debs1/debian'' 493 None,
       ParseFiles ''xenial/kubectl/debian/control''
         (Inr [Text ''Package: '', Field ''Package'']),
       OpenFile ''/tmp/debs1/debian/control'' None,
       Execute ''/tmp/debs1/debian/control''
         \<lparr>tmplFuncs = [''date''], tmplOptions = [''missingkey=error''],
          tmplFile = ''xenial/kubectl/debian/control'', tmplBody = [Text ''Package: '', Field ''Package'']\<rparr>
         ''Package: kubectl'' None,
       Chmod ''/tmp/debs1/debian/control'' 420 None,
       CloseFile ''/tmp/debs1/debian/control'',
       RunCommand ''/tmp/debs1'' ''dpkg-buildpackage''
         [''-us'', ''-uc'', ''-b'', ''-aarmhf''] (Some ''exit status 2''),
       RemoveAll ''/tmp/debs1''])"
  by (simp add: run_eval_defs dpkgFailsEnv_def)

lemma run_missingFieldEnv:
  "run missingFieldEnv defaultFlags sampleCfg [] =
     (Some (TemplateError ''missing key Maintainer''),
      [TempDir (Inr ''/tmp/debs1''),
       EvalSymlinks ''xenial/kubectl'' (Inr ''xenial/kubectl''),
       WalkDir ''xenial/kubectl'',
       Mkdir ''/tmp/debs1/debian'' 493 None,
       ParseFiles ''xenial/kubectl/debian/control''
         (Inr [Text ''Package: '', Field ''Package'', Text ''; Maintainer: '',
               Field ''Maintainer'']),
       OpenFile ''/tmp/debs1/debian/control'' None,
       Execute ''/tmp/debs1/debian/control''
         \<lparr>tmplFuncs = [''date''], tmplOptions = [''missingkey=error''],
          tmplFile = ''xenial/kubectl/debian/control'',
          tmplBody = [Text ''Package: '', Field ''Package'', Text ''; Maintainer: '',
                      Field ''Maintainer'']\<rparr>
         ''Package: kubectl; Maintainer: '' (Some ''missing key Maintainer''),
       CloseFile ''/tmp/debs1/debian/control'',
       RemoveAll ''/tmp/debs1''])"
  by (simp add: run_eval_defs missingFieldEnv_def)

text \<open>
  Claim C5. When the packaging tool was started by a job and failed with message
  \<open>m\<close> (a non-zero exit or a failure to start: \<^verbatim>\<open>cmd.Run\<close> returned an error), the
  job returns that error, and it neither creates the output directory nor moves a file.
\<close>

theorem packaging_failure_stops_job:
  assumes "run e fl c tr = (r, tr')"
    and "RunCommand pwd ''dpkg-buildpackage'' cmdArgs (Some m) \<in> set (emitted tr tr')"
  shows "r = Some (ProcessError m) \<and>
         list_all (\<lambda>ev. \<not> isMove ev \<and> \<not> isMkdirAll ev) (emitted tr tr')"
  using assms(1)
proof (cases rule: run_cases)
  case (tmp m0)
  with assms(2) show ?thesis by simp
next
  case (staged dstdir evs rest cl)
  let ?ev = "RunCommand pwd ''dpkg-buildpackage'' cmdArgs (Some m)"
  note st = staging_all [OF staged(2)]
  have "\<not> isRunCommand ev" if "ev \<in> set evs" for ev
    using st that by (simp add: list_all_iff)
  then have "?ev \<notin> set evs" by fastforce
  moreover have "?ev \<notin> set cl" using staged(4) by auto
  ultimately have in_rest: "?ev \<in> set rest"
    using assms(2) staged(1) by simp
  have clean: "list_all (\<lambda>ev. \<not> isMove ev \<and> \<not> isMkdirAll ev)
                 (TempDir (Inr dstdir) # evs @ cl)"
    using st staged(4) by (auto simp: list_all_iff)
  from staged(3) show ?thesis
  proof (cases rule: placementTailE)
    case none
    with in_rest show ?thesis by simp
  next
    case (failed cmdArgs' m')
    with in_rest have "m' = m" by simp
    with failed clean staged(1) show ?thesis by simp
  next
    case (placed cmdArgs' path x mvArgs y)
    with in_rest show ?thesis by simp
  qed
qed

theorem packaging_failure_stops_job_witness:
  "RunCommand ''/tmp/debs1'' ''dpkg-buildpackage'' [''-us'', ''-uc'', ''-b'', ''-aarmhf'']
     (Some ''exit status 2'')
     \<in> set (emitted [] (snd (run dpkgFailsEnv defaultFlags sampleCfg []))) \<and>
   fst (run dpkgFailsEnv defaultFlags sampleCfg []) = Some (ProcessError ''exit status 2'') \<and>
   list_all (\<lambda>ev. \<not> isMove ev \<and> \<not> isMkdirAll ev)
     (emitted [] (snd (run dpkgFailsEnv defaultFlags sampleCfg [])))"
proof -
  have mem: "RunCommand ''/tmp/debs1'' ''dpkg-buildpackage''
      [''-us'', ''-uc'', ''-b'', ''-aarmhf''] (Some ''exit status 2'')
      \<in> set (emitted [] (snd (run dpkgFailsEnv defaultFlags sampleCfg [])))"
    by (simp add: run_dpkgFailsEnv emitted_def)
  have eq: "run dpkgFailsEnv defaultFlags sampleCfg [] =
      (fst (run dpkgFailsEnv defaultFlags sampleCfg []),
       snd (run dpkgFailsEnv defaultFlags sampleCfg []))"
    by simp
  from packaging_failure_stops_job [OF eq mem] mem show ?thesis by simp
qed

text \<open>
  Claim C7. Take a job with configuration \<open>c\<close> that renders a template \<open>tp\<close> (the
  execution is among the events of the job) whose file refers to a field \<open>name\<close>
  that \<^verbatim>\<open>cfg\<close> does not have. Then the execution returns an error \<open>m\<close>, the job
  returns that error as its result, and the job goes no further: no packaging tool is
  started and no output directory is created, so nothing is produced from a template
  with a value missing. Every template that a job executes was built with the option
  \<^verbatim>\<open>missingkey=error\<close>.
\<close>

theorem template_missing_field_stops_job:
  assumes "run e fl c tr = (r, tr')"
    and "Execute path tp out x \<in> set (emitted tr tr')"
    and "Field name \<in> set (tmplBody tp)"
    and "name \<notin> set cfgFieldNames"
  shows "(\<exists>m. x = Some m \<and> r = Some (TemplateError m)) \<and>
         list_all (\<lambda>ev. \<not> isRunCommand ev \<and> \<not> isMkdirAll ev) (emitted tr tr') \<and>
         list_all missingKeyIsError (emitted tr tr')"
  using assms(1)
proof (cases rule: run_cases)
  case (tmp m0)
  with assms(2) show ?thesis by simp
next
  case (staged dstdir evs rest cl)
  let ?ev = "Execute path tp out x"
  note st = staging_all [OF staged(2)]
  note pl = placementTail_events [OF staged(3)]
  have cl: "list_all (\<lambda>ev. missingKeyIsError ev \<and> \<not> isRunCommand ev \<and> \<not> isMkdirAll ev) cl"
    "?ev \<notin> set cl"
    using staged(4) by auto
  have 1: "list_all missingKeyIsError (emitted tr tr')"
    using staged(1) st pl cl(1) by (auto simp: list_all_iff)
  have "?ev \<notin> set rest"
    using staged(3) by (cases rule: placementTailE) simp_all
  with assms(2) staged(1) cl(2) have in_evs: "?ev \<in> set evs"
    by simp
  have "refsAbsent (Field name)"
    using assms(4) by simp
  with assms(3) have "list_ex refsAbsent (tmplBody tp)"
    unfolding list_ex_iff by blast
  moreover have "execSound ?ev"
    using staged(6) in_evs by (simp add: list_all_iff)
  ultimately obtain m where x: "x = Some m"
    by (auto simp: execSound_def)
  then have "execFailure ?ev = Some m"
    by (simp add: execFailure_def)
  with in_evs staged(5) have 2: "r = Some (TemplateError m)" "rest = []"
    by blast+
  have 3: "list_all (\<lambda>ev. \<not> isRunCommand ev \<and> \<not> isMkdirAll ev) (emitted tr tr')"
    using 2(2) staged(1) st cl(1) by (auto simp: list_all_iff)
  from x 1 2(1) 3 show ?thesis by simp
qed

theorem template_missing_field_stops_job_witness:
  "fst (run missingFieldEnv defaultFlags sampleCfg []) =
     Some (TemplateError ''missing key Maintainer'') \<and>
   list_all (\<lambda>ev. \<not> isRunCommand ev \<and> \<not> isMkdirAll ev)
     (emitted [] (snd (run missingFieldEnv defaultFlags sampleCfg []))) \<and>
   list_all missingKeyIsError (emitted [] (snd (run missingFieldEnv defaultFlags sampleCfg [])))"
proof -
  let ?tp = "\<lparr>tmplFuncs = [''date''], tmplOptions = [''missingkey=error''],
          tmplFile = ''xenial/kubectl/debian/control'',
          tmplBody = [Text ''Package: '', Field ''Package'', Text ''; Maintainer: '',
                      Field ''Maintainer'']\<rparr>"
  have mem: "Execute ''/tmp/debs1/debian/control'' ?tp ''Package: kubectl; Maintainer: ''
       (Some ''missing key Maintainer'')
     \<in> set (emitted [] (snd (run missingFieldEnv defaultFlags sampleCfg [])))"
    by (simp add: run_missingFieldEnv emitted_def)
  have field: "Field ''Maintainer'' \<in> set (tmplBody ?tp)"
    by simp
  have absent: "''Maintainer'' \<notin> set cfgFieldNames"
    by (simp add: cfgFieldNames_def)
  have eq: "run missingFieldEnv defaultFlags sampleCfg [] =
      (fst (run missingFieldEnv defaultFlags sampleCfg []),
       snd (run missingFieldEnv defaultFlags sampleCfg []))"
    by simp
  from template_missing_field_stops_job [OF eq mem field absent] show ?thesis by simp
qed

text \<open>
  Claim C2 does not hold of the code. \<^verbatim>\<open>run\<close> drops the result of \<^verbatim>\<open>os.MkdirAll\<close>
  (line 212): whenever creating the output directory fails, the job still runs
  \<^verbatim>\<open>mv\<close>, and what it returns is the result of \<^verbatim>\<open>mv\<close> alone.
\<close>

lemma MkdirAll_failure_is_dropped:
  assumes "run e fl c tr = (r, tr')"
    and "MkdirAll path perm (Some m) \<in> set (emitted tr tr')"
  shows "\<exists>mvArgs y. RunCommand [] ''mv'' mvArgs y \<in> set (emitted tr tr') \<and>
           r = map_option ProcessError y"
  using assms(1)
proof (cases rule: run_cases)
  case (tmp m0)
  with assms(2) show ?thesis by simp
next
  case (staged dstdir evs rest cl)
  let ?ev = "MkdirAll path perm (Some m)"
  note st = staging_all [OF staged(2)]
  have "\<not> isMkdirAll ev" if "ev \<in> set evs" for ev
    using st that by (simp add: list_all_iff)
  then have "?ev \<notin> set evs" by fastforce
  moreover have "?ev \<notin> set cl" using staged(4) by auto
  ultimately have in_rest: "?ev \<in> set rest"
    using assms(2) staged(1) by simp
  from staged(3) show ?thesis
  proof (cases rule: placementTailE)
    case none
    with in_rest show ?thesis by simp
  next
    case (failed cmdArgs' m')
    with in_rest show ?thesis by simp
  next
    case (placed cmdArgs' path' x mvArgs y)
    with staged(1) show ?thesis by auto
  qed
qed

text \<open>
  Claim C2, at a failing input: the output directory cannot be created, the packaging
  tool and \<^verbatim>\<open>mv\<close> succeed. The job runs \<^verbatim>\<open>mv\<close> after the failed \<^verbatim>\<open>os.MkdirAll\<close>
  and returns no error.
\<close>

theorem run_ignores_MkdirAll_failure:
  "run mkdirAllFailsEnv defaultFlags sampleCfg [] =
     (None,
      [TempDir (Inr ''/tmp/debs1''),
       EvalSymlinks ''xenial/kubectl'' (Inr ''xenial/kubectl''),
       WalkDir ''xenial/kubectl'',
       Mkdir ''/tmp/debs1/debian'' 493 None,
       ParseFiles ''xenial/kubectl/debian/control''
         (Inr [Text ''Package: '', Field ''Package'']),
       OpenFile ''/tmp/debs1/debian/control'' None,
       Execute ''/tmp/debs1/debian/control''
         \<lparr>tmplFuncs = [''date''], tmplOptions = [''missingkey=error''],
          tmplFile = ''xenial/kubectl/debian/control'', tmplBody = [Text ''Package: '', Field ''Package'']\<rparr>
         ''Package: kubectl'' None,
       Chmod ''/tmp/debs1/debian/control'' 420 None,
       CloseFile ''/tmp/debs1/debian/control'',
       RunCommand ''/tmp/debs1'' ''dpkg-buildpackage''
         [''-us'', ''-uc'', ''-b'', ''-aarmhf''] None,
       MkdirAll ''bin/stable/xenial'' 511 (Some ''mkdir bin/stable/xenial: not a directory''),
       RunCommand [] ''mv''
         [''/tmp/kubectl_1.20.0-00_armhf.deb'', ''bin/stable/xenial''] None,
       RemoveAll ''/tmp/debs1''])"
  by (simp add: run_eval_defs mkdirAllFailsEnv_def)

end
